theory Spec2Isabelle
  imports Complex_Main
begin

section \<open>Typical days by k-medoids: the two optimisation models\<close>

text \<open>
  The repository builds two Pyomo models: the plain k-medoids MILP of
  \<^verbatim>\<open>k_medoids_milp.py\<close> and the constrained one of \<^verbatim>\<open>k_medoids_constrained.py\<close>,
  which adds the preservation of total and of peak values. A model instance is embedded
  as a record of its parameters and of the state of its components (which constraints
  are active, which variables are fixed); a candidate solution is a valuation of the
  decision variables; every expression, constraint rule and objective of the source is a
  function of the instance and of the valuation. Days are Python integers (\<open>int\<close>),
  parameter and variable values are real numbers.
\<close>

subsection \<open>Variables, constraint names, Pyomo's domains\<close>

type_synonym day = int

text \<open>The decision variables \<^verbatim>\<open>m.y[i]\<close>, \<^verbatim>\<open>m.z[i,j]\<close> and \<^verbatim>\<open>m.w[p,i]\<close>.\<close>

datatype 'p var = y day | z "day \<times> day" | w "'p \<times> day"

type_synonym 'p valuation = "'p var \<Rightarrow> real"

text \<open>The \<^verbatim>\<open>pe.Constraint\<close> components, by their attribute names.\<close>

datatype cname =
    total_representative_days
  | each_non_extreme_day_is_represented
  | total_represented_days
  | represented_by_representative
  | relative_error_upper
  | relative_error_lower
  | preserve_peak
  | at_least_one_preserved

text \<open>The domains the source passes as \<^verbatim>\<open>within=\<close>.\<close>

definition PositiveIntegers :: "int \<Rightarrow> bool" where
  "PositiveIntegers v \<longleftrightarrow> 1 \<le> v"

definition NonNegativeIntegers :: "int \<Rightarrow> bool" where
  "NonNegativeIntegers v \<longleftrightarrow> 0 \<le> v"

definition Binary :: "real \<Rightarrow> bool" where
  "Binary v \<longleftrightarrow> v = 0 \<or> v = 1"

text \<open>A value outside a parameter's domain makes the construction raise.\<close>

datatype error = ValueError string

subsection \<open>Input data\<close>

text \<open>
  The three counts. \<^verbatim>\<open>n_extreme_days\<close> may be left out of the data: the parameter is
  declared with \<^verbatim>\<open>initialize=0\<close>.
\<close>

record counts =
  n_days :: int
  n_clusters :: int
  n_extreme_days_data :: "int option"

definition n_extreme_days :: "'a counts_scheme \<Rightarrow> int" where
  "n_extreme_days m = (case n_extreme_days_data m of None \<Rightarrow> 0 | Some v \<Rightarrow> v)"

text \<open>
  The data handed to the construction of an instance. None of the indexed parameters
  declares a default, so the data may lack the value of a parameter at an index.
\<close>

record milp_input = counts +
  distance_data :: "day \<times> day \<Rightarrow> real option"

record 'p input = milp_input +
  Properties_data :: "'p list"
  x_daily_tot_data :: "'p \<times> day \<Rightarrow> real option"
  x_daily_max_data :: "'p \<times> day \<Rightarrow> real option"
  x_max_data :: "'p \<Rightarrow> real option"
  rel_tol_data :: "'p \<Rightarrow> real option"
  min_peak_share_data :: "'p \<Rightarrow> real option"

text \<open>
  Reading a parameter that is not mutable at an index without value raises while the
  component that reads it is constructed. \<open>missing f ks\<close> says that the data \<open>f\<close>
  lack a value at some index of \<open>ks\<close>; \<open>param_values f\<close> are the values of a
  parameter whose data are \<open>f\<close>, read only at indices where the construction has found
  a value.
\<close>

definition missing :: "('k \<Rightarrow> real option) \<Rightarrow> 'k list \<Rightarrow> bool" where
  "missing f ks \<longleftrightarrow> list_ex (\<lambda>k. f k = None) ks"

definition param_values :: "('k \<Rightarrow> real option) \<Rightarrow> 'k \<Rightarrow> real" where
  "param_values f k = (case f k of Some v \<Rightarrow> v | None \<Rightarrow> 0)"

text \<open>
  The parameters of an instance of the plain model, and of the constrained model, which
  adds the properties and their parameters. \<^verbatim>\<open>x_daily_max\<close> and \<^verbatim>\<open>x_max\<close> are
  declared \<^verbatim>\<open>mutable=True\<close> (``used to prevent errors in constraints''): a mutable
  parameter is not read when a constraint is constructed, so an instance may hold one
  without value.
\<close>

record milp_data = counts +
  distance :: "day \<times> day \<Rightarrow> real"

record 'p data = milp_data +
  Properties :: "'p list"
  x_daily_tot :: "'p \<times> day \<Rightarrow> real"
  x_daily_max :: "'p \<times> day \<Rightarrow> real option"
  x_max :: "'p \<Rightarrow> real option"
  rel_tol :: "'p \<Rightarrow> real"
  min_peak_share :: "'p \<Rightarrow> real"

subsection \<open>The plain model: \<^verbatim>\<open>k_medoids_milp.create_model\<close>\<close>

definition Days_milp :: "'a counts_scheme \<Rightarrow> day list" where
  "Days_milp m = [1..n_days m]"

definition Days_cross_milp :: "'a counts_scheme \<Rightarrow> (day \<times> day) list" where
  "Days_cross_milp m = List.product (Days_milp m) (Days_milp m)"

definition Clusters_milp :: "'a counts_scheme \<Rightarrow> int list" where
  "Clusters_milp m = [1..n_clusters m]"

definition total_representative_days_milp ::
  "'a milp_data_scheme \<Rightarrow> 'p valuation \<Rightarrow> bool" where
  "total_representative_days_milp m s \<longleftrightarrow>
     (\<Sum>i\<leftarrow>Days_milp m. s (y i)) = of_int (n_clusters m)"

definition each_non_extreme_day_is_represented_milp ::
  "'a milp_data_scheme \<Rightarrow> 'p valuation \<Rightarrow> day \<Rightarrow> bool" where
  "each_non_extreme_day_is_represented_milp m s j \<longleftrightarrow>
     (\<Sum>i\<leftarrow>Days_milp m. s (z (i, j))) \<le> 1"

definition total_represented_days_milp ::
  "'a milp_data_scheme \<Rightarrow> 'p valuation \<Rightarrow> bool" where
  "total_represented_days_milp m s \<longleftrightarrow>
     (\<Sum>ij\<leftarrow>Days_cross_milp m. s (z ij)) = of_int (n_days m - n_extreme_days m)"

definition represented_by_representative_milp ::
  "'a milp_data_scheme \<Rightarrow> 'p valuation \<Rightarrow> day \<Rightarrow> day \<Rightarrow> bool" where
  "represented_by_representative_milp m s i j \<longleftrightarrow> s (z (i, j)) \<le> s (y i)"

definition total_distance_milp :: "'a milp_data_scheme \<Rightarrow> 'p valuation \<Rightarrow> real" where
  "total_distance_milp m s = (\<Sum>ij\<leftarrow>Days_cross_milp m. distance m ij * s (z ij))"

text \<open>The constraint components of the plain model, in the order of declaration.\<close>

definition constraints_milp :: "cname list" where
  "constraints_milp =
     [total_representative_days, each_non_extreme_day_is_represented,
      total_represented_days, represented_by_representative]"

text \<open>
  A constraint component holds when its rule holds at every index of the component.
  The plain model declares none of the four property-indexed components.
\<close>

fun holds_milp :: "'a milp_data_scheme \<Rightarrow> 'p valuation \<Rightarrow> cname \<Rightarrow> bool" where
  "holds_milp m s total_representative_days = total_representative_days_milp m s"
| "holds_milp m s each_non_extreme_day_is_represented =
     list_all (each_non_extreme_day_is_represented_milp m s) (Days_milp m)"
| "holds_milp m s total_represented_days = total_represented_days_milp m s"
| "holds_milp m s represented_by_representative =
     list_all (\<lambda>(i, j). represented_by_representative_milp m s i j) (Days_cross_milp m)"
| "holds_milp m s _ = True"

text \<open>The variables of the plain model (\<^verbatim>\<open>m.z\<close>, then \<^verbatim>\<open>m.y\<close>), all binary.\<close>

definition variables_milp :: "'a milp_data_scheme \<Rightarrow> 'p var list" where
  "variables_milp m = map z (Days_cross_milp m) @ map y (Days_milp m)"

definition domain_milp :: "'p var \<Rightarrow> real \<Rightarrow> bool" where
  "domain_milp v = Binary"

text \<open>
  Constructing an instance validates the three counts against their declared domains,
  in the order of declaration. The objective, constructed last, reads the distance of
  every pair of days. The plain model has no activation step: every component stays
  active and no variable is fixed, so the instance is its parameters.
\<close>

definition declare_components_milp :: "milp_input \<Rightarrow> milp_data" where
  "declare_components_milp d =
     \<lparr>n_days = n_days d, n_clusters = n_clusters d,
      n_extreme_days_data = n_extreme_days_data d,
      distance = param_values (distance_data d)\<rparr>"

definition create_model_milp :: "milp_input \<Rightarrow> error + milp_data" where
  "create_model_milp d =
     (if \<not> PositiveIntegers (n_days d) then Inl (ValueError ''n_days'')
      else if \<not> PositiveIntegers (n_clusters d) then Inl (ValueError ''n_clusters'')
      else if \<not> NonNegativeIntegers (n_extreme_days d) then Inl (ValueError ''n_extreme_days'')
      else if missing (distance_data d) (Days_cross_milp d) then Inl (ValueError ''distance'')
      else Inr (declare_components_milp d))"

text \<open>A valuation is feasible when every variable is in its domain and every constraint holds.\<close>

definition feasible_milp :: "'a milp_data_scheme \<Rightarrow> 'p valuation \<Rightarrow> bool" where
  "feasible_milp m s \<longleftrightarrow>
     list_all (\<lambda>v. domain_milp v (s v)) (variables_milp m) \<and>
     list_all (holds_milp m s) constraints_milp"

subsection \<open>The constrained model: \<^verbatim>\<open>k_medoids_constrained.create_model\<close>\<close>

record options =
  preserve_total_values :: bool
  preserve_peak_values :: bool

text \<open>
  An instance: the data, the options, and the state of the components. \<open>active\<close> is the
  flag \<^verbatim>\<open>deactivate()\<close> clears; \<open>fixed\<close> and \<open>val\<close> are the flag and the value
  \<^verbatim>\<open>fix(v)\<close> sets on a variable.
\<close>

record 'p model = "'p data" +
  options :: options
  active :: "cname \<Rightarrow> bool"
  fixed :: "'p var \<Rightarrow> bool"
  val :: "'p var \<Rightarrow> real option"

definition Days :: "'a counts_scheme \<Rightarrow> day list" where
  "Days m = [1..n_days m]"

definition Days_cross :: "'a counts_scheme \<Rightarrow> (day \<times> day) list" where
  "Days_cross m = List.product (Days m) (Days m)"

definition x_total :: "('p, 'a) data_scheme \<Rightarrow> 'p \<Rightarrow> real" where
  "x_total m p = (\<Sum>i\<leftarrow>Days m. x_daily_tot m (p, i))"

definition x_weight :: "'a milp_data_scheme \<Rightarrow> 'p valuation \<Rightarrow> day \<Rightarrow> real" where
  "x_weight m s i =
     (let n_days_represented = (\<Sum>j\<leftarrow>Days m. s (z (i, j)));
          extreme = 1 - (\<Sum>k\<leftarrow>Days m. s (z (k, i)))
      in n_days_represented + extreme)"

definition x_total_estimated :: "('p, 'a) data_scheme \<Rightarrow> 'p valuation \<Rightarrow> 'p \<Rightarrow> real" where
  "x_total_estimated m s p = (\<Sum>i\<leftarrow>Days m. x_weight m s i * x_daily_tot m (p, i))"

definition chosen :: "'a milp_data_scheme \<Rightarrow> 'p valuation \<Rightarrow> day \<Rightarrow> real" where
  "chosen m s i = s (y i) + (1 - (\<Sum>j\<leftarrow>Days m. s (z (i, j))))"

definition total_representative_days_rule ::
  "'a milp_data_scheme \<Rightarrow> 'p valuation \<Rightarrow> bool" where
  "total_representative_days_rule m s \<longleftrightarrow>
     (\<Sum>i\<leftarrow>Days m. s (y i)) = of_int (n_clusters m)"

definition each_non_extreme_day_is_represented_rule ::
  "'a milp_data_scheme \<Rightarrow> 'p valuation \<Rightarrow> day \<Rightarrow> bool" where
  "each_non_extreme_day_is_represented_rule m s j \<longleftrightarrow>
     (\<Sum>i\<leftarrow>Days m. s (z (i, j))) \<le> 1"

definition total_represented_days_rule ::
  "'a milp_data_scheme \<Rightarrow> 'p valuation \<Rightarrow> bool" where
  "total_represented_days_rule m s \<longleftrightarrow>
     (\<Sum>ij\<leftarrow>Days_cross m. s (z ij)) = of_int (n_days m - n_extreme_days m)"

definition represented_by_representative_rule ::
  "'a milp_data_scheme \<Rightarrow> 'p valuation \<Rightarrow> day \<Rightarrow> day \<Rightarrow> bool" where
  "represented_by_representative_rule m s i j \<longleftrightarrow> s (z (i, j)) \<le> s (y i)"

definition relative_error_upper_rule ::
  "('p, 'a) data_scheme \<Rightarrow> 'p valuation \<Rightarrow> 'p \<Rightarrow> bool" where
  "relative_error_upper_rule m s p \<longleftrightarrow>
     x_total_estimated m s p \<le> (1 + rel_tol m p) * x_total m p"

definition relative_error_lower_rule ::
  "('p, 'a) data_scheme \<Rightarrow> 'p valuation \<Rightarrow> 'p \<Rightarrow> bool" where
  "relative_error_lower_rule m s p \<longleftrightarrow>
     x_total_estimated m s p \<ge> (1 - rel_tol m p) * x_total m p"

text \<open>
  \<^verbatim>\<open>_preserve_peak\<close> reads the two mutable parameters. Where one of them has no value
  the constraint cannot be evaluated for the solver, and no valuation satisfies it.
\<close>

definition preserve_peak_rule ::
  "('p, 'a) data_scheme \<Rightarrow> 'p valuation \<Rightarrow> 'p \<Rightarrow> day \<Rightarrow> bool" where
  "preserve_peak_rule m s p i \<longleftrightarrow>
     (case (x_daily_max m (p, i), x_max m p) of
        (Some daily_max, Some overall_max) \<Rightarrow>
          daily_max * chosen m s i - s (w (p, i)) * min_peak_share m p * overall_max \<ge> 0
      | _ \<Rightarrow> False)"

definition at_least_one_preserved_rule ::
  "('p, 'a) data_scheme \<Rightarrow> 'p valuation \<Rightarrow> 'p \<Rightarrow> bool" where
  "at_least_one_preserved_rule m s p \<longleftrightarrow> (\<Sum>i\<leftarrow>Days m. s (w (p, i))) \<ge> 1"

definition total_distance :: "'a milp_data_scheme \<Rightarrow> 'p valuation \<Rightarrow> real" where
  "total_distance m s = (\<Sum>ij\<leftarrow>Days_cross m. distance m ij * s (z ij))"

text \<open>The constraint components of the constrained model, in the order of declaration.\<close>

definition constraints :: "cname list" where
  "constraints =
     [total_representative_days, each_non_extreme_day_is_represented,
      total_represented_days, represented_by_representative,
      relative_error_upper, relative_error_lower, preserve_peak, at_least_one_preserved]"

fun holds :: "('p, 'a) data_scheme \<Rightarrow> 'p valuation \<Rightarrow> cname \<Rightarrow> bool" where
  "holds m s total_representative_days = total_representative_days_rule m s"
| "holds m s each_non_extreme_day_is_represented =
     list_all (each_non_extreme_day_is_represented_rule m s) (Days m)"
| "holds m s total_represented_days = total_represented_days_rule m s"
| "holds m s represented_by_representative =
     list_all (\<lambda>(i, j). represented_by_representative_rule m s i j) (Days_cross m)"
| "holds m s relative_error_upper = list_all (relative_error_upper_rule m s) (Properties m)"
| "holds m s relative_error_lower = list_all (relative_error_lower_rule m s) (Properties m)"
| "holds m s preserve_peak =
     list_all (\<lambda>p. list_all (preserve_peak_rule m s p) (Days m)) (Properties m)"
| "holds m s at_least_one_preserved =
     list_all (at_least_one_preserved_rule m s) (Properties m)"

text \<open>The variables (\<^verbatim>\<open>m.z\<close>, \<^verbatim>\<open>m.y\<close>, \<^verbatim>\<open>m.w\<close>), all binary.\<close>

definition variables :: "('p, 'a) data_scheme \<Rightarrow> 'p var list" where
  "variables m =
     map z (Days_cross m) @ map y (Days m) @ map w (List.product (Properties m) (Days m))"

definition var_domain :: "'p var \<Rightarrow> real \<Rightarrow> bool" where
  "var_domain v = Binary"

text \<open>
  \<^verbatim>\<open>deactivate()\<close> on a constraint component and \<^verbatim>\<open>m.w.fix(v)\<close>, which sets the
  value of every \<^verbatim>\<open>w[p,i]\<close> and marks it fixed.
\<close>

definition deactivate :: "cname \<Rightarrow> 'p model \<Rightarrow> 'p model" where
  "deactivate c m = m\<lparr>active := (active m)(c := False)\<rparr>"

definition fix_w :: "real \<Rightarrow> 'p model \<Rightarrow> 'p model" where
  "fix_w v m =
     m\<lparr>fixed := (\<lambda>x. case x of w ix \<Rightarrow> True | _ \<Rightarrow> fixed m x),
       val := (\<lambda>x. case x of w ix \<Rightarrow> Some v | _ \<Rightarrow> val m x)\<rparr>"

definition apply_options :: "'p model \<Rightarrow> 'p model" where
  "apply_options m =
     (let m1 = (if \<not> preserve_total_values (options m)
                then deactivate relative_error_lower (deactivate relative_error_upper m)
                else m);
          m2 = (if \<not> preserve_peak_values (options m1)
                then fix_w 0 (deactivate at_least_one_preserved (deactivate preserve_peak m1))
                else m1)
      in m2)"

text \<open>
  The components as declared, before the build action runs: every constraint active,
  no variable fixed, \<^verbatim>\<open>z\<close> and \<^verbatim>\<open>y\<close> initialised to 0, \<^verbatim>\<open>w\<close> without a value.
\<close>

definition declare_components :: "bool \<Rightarrow> bool \<Rightarrow> 'p input \<Rightarrow> 'p model" where
  "declare_components ptv ppv d =
     \<lparr>n_days = n_days d, n_clusters = n_clusters d,
      n_extreme_days_data = n_extreme_days_data d,
      distance = param_values (distance_data d),
      Properties = Properties_data d,
      x_daily_tot = param_values (x_daily_tot_data d),
      x_daily_max = x_daily_max_data d,
      x_max = x_max_data d,
      rel_tol = param_values (rel_tol_data d),
      min_peak_share = param_values (min_peak_share_data d),
      options = \<lparr>preserve_total_values = ptv,
                 preserve_peak_values = ppv\<rparr>,
      active = (\<lambda>c. True),
      fixed = (\<lambda>x. False),
      val = (\<lambda>x. case x of w ix \<Rightarrow> None | _ \<Rightarrow> Some 0)\<rparr>"

text \<open>
  Constructing an instance, component by component in the order of declaration. The
  counts are validated against their domains. The rule of \<^verbatim>\<open>x_total\<close> reads
  \<^verbatim>\<open>x_daily_tot\<close> for every property and day; \<^verbatim>\<open>_relative_error_upper\<close> reads
  \<^verbatim>\<open>rel_tol\<close> and \<^verbatim>\<open>_preserve_peak\<close> reads \<^verbatim>\<open>min_peak_share\<close> for every property;
  the objective reads the distance of every pair of days. All the constraints are
  constructed whatever the options are: the build action \<^verbatim>\<open>apply_options\<close> runs last.
\<close>

definition create_model :: "bool \<Rightarrow> bool \<Rightarrow> 'p input \<Rightarrow> error + 'p model" where
  "create_model ptv ppv d =
     (if \<not> PositiveIntegers (n_days d) then Inl (ValueError ''n_days'')
      else if \<not> PositiveIntegers (n_clusters d) then Inl (ValueError ''n_clusters'')
      else if \<not> NonNegativeIntegers (n_extreme_days d) then Inl (ValueError ''n_extreme_days'')
      else if missing (x_daily_tot_data d) (List.product (Properties_data d) (Days d))
        then Inl (ValueError ''x_daily_tot'')
      else if missing (rel_tol_data d) (Properties_data d) then Inl (ValueError ''rel_tol'')
      else if missing (min_peak_share_data d) (Properties_data d)
        then Inl (ValueError ''min_peak_share'')
      else if missing (distance_data d) (Days_cross d) then Inl (ValueError ''distance'')
      else Inr (apply_options (declare_components ptv ppv d)))"

text \<open>
  A valuation is feasible for an instance when every variable is in its domain, every
  fixed variable has the value it was fixed to, and every active constraint holds.
\<close>

definition admits :: "'p model \<Rightarrow> 'p valuation \<Rightarrow> 'p var \<Rightarrow> bool" where
  "admits m s v \<longleftrightarrow> var_domain v (s v) \<and> (if fixed m v then val m v = Some (s v) else True)"

definition satisfies :: "'p model \<Rightarrow> 'p valuation \<Rightarrow> cname \<Rightarrow> bool" where
  "satisfies m s c \<longleftrightarrow> (if active m c then holds m s c else True)"

definition feasible :: "'p model \<Rightarrow> 'p valuation \<Rightarrow> bool" where
  "feasible m s \<longleftrightarrow> list_all (admits m s) (variables m) \<and> list_all (satisfies m s) constraints"

text \<open>
  The formula the specification and the docstring of \<^verbatim>\<open>_chosen\<close> describe (``1 iff day
  i is either typical or extreme''), with the sum over the representatives \<open>k\<close> of day
  \<open>i\<close>, as in the second term of \<^verbatim>\<open>_x_weight\<close>. It is stated for comparison with
  \<open>chosen\<close>, which is the source's expression.
\<close>

definition chosen_documented :: "'a milp_data_scheme \<Rightarrow> 'p valuation \<Rightarrow> day \<Rightarrow> real" where
  "chosen_documented m s i = s (y i) + (1 - (\<Sum>k\<leftarrow>Days m. s (z (k, i))))"

subsection \<open>Concrete instances\<close>

text \<open>
  Two days and one property, every daily total and maximum equal to 1, an exact
  relative tolerance; the number of clusters and the minimum peak share vary.
\<close>

definition two_days :: "int \<Rightarrow> real \<Rightarrow> string input" where
  "two_days k share =
     \<lparr>n_days = 2, n_clusters = k, n_extreme_days_data = None,
      distance_data = (\<lambda>(i, j). Some (if i = j then 0 else 1)),
      Properties_data = [''load''],
      x_daily_tot_data = (\<lambda>ix. Some 1), x_daily_max_data = (\<lambda>ix. Some 1),
      x_max_data = (\<lambda>p. Some 1), rel_tol_data = (\<lambda>p. Some 0),
      min_peak_share_data = (\<lambda>p. Some share)\<rparr>"

text \<open>
  The same two days with one cluster and a minimum peak share of one half, where the
  maximum of day 1 is one tenth of the overall maximum; and a solution in which day 1
  represents both days and day 2 is the peak witness.
\<close>

definition low_peak_on_first_day :: "string input" where
  "low_peak_on_first_day =
     (two_days 1 (1/2))\<lparr>x_daily_max_data := (\<lambda>ix. Some (if snd ix = 1 then 1/10 else 1))\<rparr>"

definition witness_on_second_day :: "string valuation" where
  "witness_on_second_day v = (case v of y i \<Rightarrow> if i = 1 then 1 else 0
                              | z ij \<Rightarrow> if fst ij = 1 then 1 else 0
                              | w ix \<Rightarrow> if snd ix = 2 then 1 else 0)"

text \<open>The same two days with two clusters, where the data give no overall maximum.\<close>

definition without_overall_maximum :: "string input" where
  "without_overall_maximum = (two_days 2 (1/2))\<lparr>x_max_data := (\<lambda>p. None)\<rparr>"

text \<open>The same two days with two clusters, where the data give no relative tolerance.\<close>

definition without_tolerance :: "string input" where
  "without_tolerance = (two_days 2 (1/2))\<lparr>rel_tol_data := (\<lambda>p. None)\<rparr>"

text \<open>Day 1 represents both days, and every day is a peak witness.\<close>

definition one_cluster :: "string valuation" where
  "one_cluster v = (case v of y i \<Rightarrow> if i = 1 then 1 else 0
                    | z ij \<Rightarrow> if fst ij = 1 then 1 else 0
                    | w ix \<Rightarrow> 1)"

text \<open>Every day represents itself, and day 1 is the peak witness.\<close>

definition own_cluster :: "string valuation" where
  "own_cluster v = (case v of y i \<Rightarrow> 1
                    | z ij \<Rightarrow> if fst ij = snd ij then 1 else 0
                    | w ix \<Rightarrow> if snd ix = 1 then 1 else 0)"

text \<open>Every day represents itself, and no day is a peak witness.\<close>

definition own_cluster_unwitnessed :: "string valuation" where
  "own_cluster_unwitnessed v = (case v of y i \<Rightarrow> 1
                                | z ij \<Rightarrow> if fst ij = snd ij then 1 else 0
                                | w ix \<Rightarrow> 0)"

text \<open>Every day is a representative, and every day is assigned to day 1.\<close>

definition all_assigned_to_first :: "string valuation" where
  "all_assigned_to_first v = (case v of y i \<Rightarrow> 1
                              | z ij \<Rightarrow> if fst ij = 1 then 1 else 0
                              | w ix \<Rightarrow> 0)"

text \<open>
  Three days and three clusters for the plain model, with a given distance matrix: the
  data and the instance; and the distance that is 0 from a day to itself and 1 between
  two different days.
\<close>

definition three_days_data :: "(day \<times> day \<Rightarrow> real) \<Rightarrow> milp_input" where
  "three_days_data dm =
     \<lparr>n_days = 3, n_clusters = 3, n_extreme_days_data = None,
      distance_data = (\<lambda>ij. Some (dm ij))\<rparr>"

definition three_days :: "(day \<times> day \<Rightarrow> real) \<Rightarrow> milp_data" where
  "three_days dm =
     \<lparr>n_days = 3, n_clusters = 3, n_extreme_days_data = None, distance = dm\<rparr>"

definition discrete_distance :: "day \<times> day \<Rightarrow> real" where
  "discrete_distance ij = (if fst ij = snd ij then 0 else 1)"

section \<open>Basic facts\<close>

subsection \<open>Sums over the days\<close>

lemma sum_list_upto: "(\<Sum>i\<leftarrow>[a..b]. f i) = (\<Sum>i = a..b. (f i :: real))"
  by (simp add: sum_set_upto_conv_sum_list_int [symmetric])

lemma sum_list_product:
  "(\<Sum>ij\<leftarrow>List.product xs ys. (f ij :: real)) = (\<Sum>i\<leftarrow>xs. \<Sum>j\<leftarrow>ys. f (i, j))"
  by (induction xs) (simp_all add: comp_def)

lemma sum_Days: "(\<Sum>i\<leftarrow>Days m. f i) = (\<Sum>i = 1..n_days m. (f i :: real))"
  by (simp add: Days_def sum_list_upto)

lemma sum_Days_cross:
  "(\<Sum>ij\<leftarrow>Days_cross m. (f ij :: real)) = (\<Sum>i = 1..n_days m. \<Sum>j = 1..n_days m. f (i, j))"
  by (simp add: Days_cross_def sum_list_product sum_Days)

lemma set_Days: "set (Days m) = {1..n_days m}"
  by (simp add: Days_def)

lemma set_Days_cross: "set (Days_cross m) = {1..n_days m} \<times> {1..n_days m}"
  by (simp add: Days_cross_def set_Days)

lemma upto_1_2: "[1..2::int] = [1, 2]"
  by (simp add: upto.simps)

lemma upto_1_3: "[1..3::int] = [1, 2, 3]"
  by (simp add: upto.simps)

lemmas model_defs = create_model_def declare_components_def apply_options_def deactivate_def
  fix_w_def PositiveIntegers_def NonNegativeIntegers_def n_extreme_days_def two_days_def Let_def
  missing_def param_values_def Days_def Days_cross_def upto_1_2 upto_1_3

lemmas rule_defs = feasible_def admits_def satisfies_def variables_def constraints_def
  var_domain_def Binary_def
  total_representative_days_rule_def each_non_extreme_day_is_represented_rule_def
  total_represented_days_rule_def represented_by_representative_rule_def
  relative_error_upper_rule_def relative_error_lower_rule_def preserve_peak_rule_def
  at_least_one_preserved_rule_def x_total_estimated_def x_total_def x_weight_def chosen_def

lemma sum_Binary_card:
  assumes "finite A" and "\<forall>a\<in>A. Binary (f a)"
  shows "sum f A = of_nat (card {a \<in> A. f a = 1})"
  using assms
proof (induction A rule: finite_induct)
  case empty
  then show ?case by simp
next
  case (insert x F)
  then have IH: "sum f F = of_nat (card {a \<in> F. f a = 1})" and bx: "Binary (f x)"
    by simp_all
  show ?case
  proof (cases "f x = 1")
    case True
    then have "{a \<in> insert x F. f a = 1} = insert x {a \<in> F. f a = 1}"
      by auto
    moreover have "x \<notin> {a \<in> F. f a = 1}" and "finite {a \<in> F. f a = 1}"
      using insert.hyps by simp_all
    ultimately have "card {a \<in> insert x F. f a = 1} = Suc (card {a \<in> F. f a = 1})"
      by simp
    with True IH insert.hyps show ?thesis by simp
  next
    case False
    then have "{a \<in> insert x F. f a = 1} = {a \<in> F. f a = 1}"
      by auto
    moreover from False bx have "f x = 0" by (simp add: Binary_def)
    ultimately show ?thesis using IH insert.hyps by simp
  qed
qed

subsection \<open>Construction and the activation step\<close>

lemma apply_options_data [simp]:
  "n_days (apply_options m) = n_days m"
  "n_clusters (apply_options m) = n_clusters m"
  "n_extreme_days_data (apply_options m) = n_extreme_days_data m"
  "distance (apply_options m) = distance m"
  "Properties (apply_options m) = Properties m"
  "x_daily_tot (apply_options m) = x_daily_tot m"
  "x_daily_max (apply_options m) = x_daily_max m"
  "x_max (apply_options m) = x_max m"
  "rel_tol (apply_options m) = rel_tol m"
  "min_peak_share (apply_options m) = min_peak_share m"
  "options (apply_options m) = options m"
  by (simp_all add: apply_options_def deactivate_def fix_w_def Let_def)

lemma apply_options_active:
  "active (apply_options m) c \<longleftrightarrow>
     active m c \<and>
     (preserve_total_values (options m) \<or> (c \<noteq> relative_error_upper \<and> c \<noteq> relative_error_lower)) \<and>
     (preserve_peak_values (options m) \<or> (c \<noteq> preserve_peak \<and> c \<noteq> at_least_one_preserved))"
  by (auto simp add: apply_options_def deactivate_def fix_w_def Let_def)

lemma missing_iff: "missing f ks \<longleftrightarrow> (\<exists>k\<in>set ks. f k = None)"
  by (simp add: missing_def list_ex_iff)

lemma param_values_Some: "f k = Some v \<Longrightarrow> param_values f k = v"
  by (simp add: param_values_def)

lemma create_model_Inr:
  assumes "create_model ptv ppv d = Inr m"
  shows "m = apply_options (declare_components ptv ppv d)"
    and "1 \<le> n_days d" and "1 \<le> n_clusters d" and "0 \<le> n_extreme_days d"
    and "\<not> missing (x_daily_tot_data d) (List.product (Properties_data d) (Days d))"
    and "\<not> missing (rel_tol_data d) (Properties_data d)"
    and "\<not> missing (min_peak_share_data d) (Properties_data d)"
    and "\<not> missing (distance_data d) (Days_cross d)"
  using assms
  by (simp_all add: create_model_def PositiveIntegers_def NonNegativeIntegers_def split: if_splits)

lemma declare_components_fields [simp]:
  "n_days (declare_components ptv ppv d) = n_days d"
  "n_clusters (declare_components ptv ppv d) = n_clusters d"
  "n_extreme_days_data (declare_components ptv ppv d) = n_extreme_days_data d"
  "distance (declare_components ptv ppv d) = param_values (distance_data d)"
  "Properties (declare_components ptv ppv d) = Properties_data d"
  "x_daily_tot (declare_components ptv ppv d) = param_values (x_daily_tot_data d)"
  "x_daily_max (declare_components ptv ppv d) = x_daily_max_data d"
  "x_max (declare_components ptv ppv d) = x_max_data d"
  "rel_tol (declare_components ptv ppv d) = param_values (rel_tol_data d)"
  "min_peak_share (declare_components ptv ppv d) = param_values (min_peak_share_data d)"
  "preserve_total_values (options (declare_components ptv ppv d)) = ptv"
  "preserve_peak_values (options (declare_components ptv ppv d)) = ppv"
  "active (declare_components ptv ppv d) c = True"
  "fixed (declare_components ptv ppv d) v = False"
  by (simp_all add: declare_components_def)

lemma apply_options_fixed:
  "fixed (apply_options m) v \<longleftrightarrow>
     (case v of w ix \<Rightarrow> fixed m v \<or> \<not> preserve_peak_values (options m) | _ \<Rightarrow> fixed m v)"
  by (simp add: apply_options_def deactivate_def fix_w_def Let_def split: var.splits)

lemma apply_options_val:
  "val (apply_options m) v =
     (case v of w ix \<Rightarrow> if preserve_peak_values (options m) then val m v else Some 0
      | _ \<Rightarrow> val m v)"
  by (simp add: apply_options_def deactivate_def fix_w_def Let_def split: var.splits)

lemma n_extreme_days_apply_options [simp]:
  "n_extreme_days (apply_options m) = n_extreme_days m"
  by (simp add: n_extreme_days_def)

lemma n_extreme_days_declare_components [simp]:
  "n_extreme_days (declare_components ptv ppv d) = n_extreme_days d"
  by (simp add: n_extreme_days_def)

subsection \<open>Feasibility and the constraints in terms of sums over \<open>1..n_days\<close>\<close>

lemma set_constraints: "c \<in> set constraints"
  by (cases c) (simp_all add: constraints_def)

lemma feasible_holds: "feasible m s \<Longrightarrow> active m c \<Longrightarrow> holds m s c"
  using set_constraints [of c] by (auto simp add: feasible_def list_all_iff satisfies_def split: if_splits)

lemma feasible_Binary: "feasible m s \<Longrightarrow> v \<in> set (variables m) \<Longrightarrow> Binary (s v)"
  by (auto simp add: feasible_def list_all_iff admits_def var_domain_def)

lemma feasible_fixed:
  "feasible m s \<Longrightarrow> v \<in> set (variables m) \<Longrightarrow> fixed m v \<Longrightarrow> val m v = Some (s v)"
  by (auto simp add: feasible_def list_all_iff admits_def)

lemma set_variables:
  "set (variables m) =
     z ` ({1..n_days m} \<times> {1..n_days m}) \<union> y ` {1..n_days m} \<union>
     w ` (set (Properties m) \<times> {1..n_days m})"
  by (simp add: variables_def set_Days set_Days_cross Un_assoc)

lemma holds_total_representative_days:
  "holds m s total_representative_days \<longleftrightarrow>
     (\<Sum>i = 1..n_days m. s (y i)) = of_int (n_clusters m)"
  by (simp add: total_representative_days_rule_def sum_Days)

lemma holds_each_non_extreme_day_is_represented:
  "holds m s each_non_extreme_day_is_represented \<longleftrightarrow>
     (\<forall>j\<in>{1..n_days m}. (\<Sum>i = 1..n_days m. s (z (i, j))) \<le> 1)"
  by (simp add: each_non_extreme_day_is_represented_rule_def sum_Days list_all_iff set_Days)

lemma holds_total_represented_days:
  "holds m s total_represented_days \<longleftrightarrow>
     (\<Sum>i = 1..n_days m. \<Sum>j = 1..n_days m. s (z (i, j))) = of_int (n_days m - n_extreme_days m)"
  by (simp add: total_represented_days_rule_def sum_Days_cross)

lemma holds_represented_by_representative:
  "holds m s represented_by_representative \<longleftrightarrow>
     (\<forall>i\<in>{1..n_days m}. \<forall>j\<in>{1..n_days m}. s (z (i, j)) \<le> s (y i))"
  by (auto simp add: represented_by_representative_rule_def list_all_iff set_Days_cross)

lemma holds_relative_error_upper:
  "holds m s relative_error_upper \<longleftrightarrow>
     (\<forall>p\<in>set (Properties m).
        (\<Sum>i = 1..n_days m. x_weight m s i * x_daily_tot m (p, i))
          \<le> (1 + rel_tol m p) * (\<Sum>i = 1..n_days m. x_daily_tot m (p, i)))"
  by (simp add: relative_error_upper_rule_def list_all_iff x_total_estimated_def x_total_def sum_Days)

lemma holds_relative_error_lower:
  "holds m s relative_error_lower \<longleftrightarrow>
     (\<forall>p\<in>set (Properties m).
        (1 - rel_tol m p) * (\<Sum>i = 1..n_days m. x_daily_tot m (p, i))
          \<le> (\<Sum>i = 1..n_days m. x_weight m s i * x_daily_tot m (p, i)))"
  by (simp add: relative_error_lower_rule_def list_all_iff x_total_estimated_def x_total_def sum_Days)

lemma holds_preserve_peak:
  "holds m s preserve_peak \<longleftrightarrow>
     (\<forall>p\<in>set (Properties m). \<forall>i\<in>{1..n_days m}. preserve_peak_rule m s p i)"
  by (simp add: list_all_iff set_Days)

lemma holds_at_least_one_preserved:
  "holds m s at_least_one_preserved \<longleftrightarrow>
     (\<forall>p\<in>set (Properties m). (\<Sum>i = 1..n_days m. s (w (p, i))) \<ge> 1)"
  by (simp add: at_least_one_preserved_rule_def list_all_iff sum_Days)

lemma x_weight_sum: "x_weight m s i = (\<Sum>j = 1..n_days m. s (z (i, j))) + (1 - (\<Sum>k = 1..n_days m. s (z (k, i))))"
  by (simp add: x_weight_def sum_Days Let_def)

lemma chosen_sum: "chosen m s i = s (y i) + (1 - (\<Sum>j = 1..n_days m. s (z (i, j))))"
  by (simp add: chosen_def sum_Days)

lemmas holds_set_form = holds_total_representative_days holds_each_non_extreme_day_is_represented
  holds_total_represented_days holds_represented_by_representative holds_relative_error_upper
  holds_relative_error_lower holds_preserve_peak holds_at_least_one_preserved

lemma preserve_peak_rule_apply_options [simp]:
  "preserve_peak_rule (apply_options m) s p i = preserve_peak_rule m s p i"
  by (simp add: preserve_peak_rule_def chosen_sum split: option.splits)

lemma holds_apply_options [simp]: "holds (apply_options m) s c = holds m s c"
  by (cases c) (simp_all only: holds_set_form, simp_all add: x_weight_sum chosen_sum)

lemma variables_apply_options [simp]: "variables (apply_options m) = variables m"
  by (simp add: variables_def Days_def Days_cross_def)

section \<open>The activation step\<close>

text \<open>
  Claim C6. The activation step changes only the preservation machinery. A constraint is
  active afterwards exactly when it was active before and is not one of the two
  total-value constraints with \<^verbatim>\<open>preserve_total_values\<close> false, nor one of the two peak
  constraints with \<^verbatim>\<open>preserve_peak_values\<close> false. A variable is fixed afterwards
  exactly when it was fixed before or it is some \<^verbatim>\<open>w[p,i]\<close> with
  \<^verbatim>\<open>preserve_peak_values\<close> false, and then its value is 0; so the total-value branch
  fixes nothing. The variables \<^verbatim>\<open>y\<close> and \<^verbatim>\<open>z\<close>, the options, the data, the set of
  variables, the meaning of every constraint and the objective are unchanged.
\<close>

theorem apply_options_frame:
  "(active (apply_options m) c \<longleftrightarrow>
      active m c \<and>
      (preserve_total_values (options m) \<or>
         (c \<noteq> relative_error_upper \<and> c \<noteq> relative_error_lower)) \<and>
      (preserve_peak_values (options m) \<or>
         (c \<noteq> preserve_peak \<and> c \<noteq> at_least_one_preserved))) \<and>
   (fixed (apply_options m) v \<longleftrightarrow>
      fixed m v \<or> (\<not> preserve_peak_values (options m) \<and> (\<exists>ix. v = w ix))) \<and>
   val (apply_options m) v =
     (if \<not> preserve_peak_values (options m) \<and> (\<exists>ix. v = w ix) then Some 0 else val m v) \<and>
   fixed (apply_options m) (y i) = fixed m (y i) \<and>
   val (apply_options m) (y i) = val m (y i) \<and>
   fixed (apply_options m) (z ij) = fixed m (z ij) \<and>
   val (apply_options m) (z ij) = val m (z ij) \<and>
   options (apply_options m) = options m \<and>
   data.truncate (apply_options m) = data.truncate m \<and>
   variables (apply_options m) = variables m \<and>
   holds (apply_options m) s c = holds m s c \<and>
   total_distance (apply_options m) s = total_distance m s"
proof -
  have "fixed (apply_options m) v \<longleftrightarrow>
      fixed m v \<or> (\<not> preserve_peak_values (options m) \<and> (\<exists>ix. v = w ix))"
    by (cases v) (simp_all add: apply_options_fixed)
  moreover have "val (apply_options m) v =
     (if \<not> preserve_peak_values (options m) \<and> (\<exists>ix. v = w ix) then Some 0 else val m v)"
    by (cases v) (simp_all add: apply_options_val)
  moreover have "data.truncate (apply_options m) = data.truncate m"
    by (simp add: data.truncate_def)
  moreover have "total_distance (apply_options m) s = total_distance m s"
    by (simp add: total_distance_def Days_cross_def Days_def)
  ultimately show ?thesis
    by (simp add: apply_options_active apply_options_fixed apply_options_val)
qed

text \<open>
  Claim C7. The activation step is idempotent: whatever the two flags are, running it a
  second time leaves the active flags of the constraints, the fixed flags of the
  variables and their values as the first run left them.
\<close>

theorem apply_options_idempotent: "apply_options (apply_options m) = apply_options m"
  by (auto simp add: apply_options_def deactivate_def fix_w_def Let_def fun_eq_iff split: var.splits)

section \<open>The base constraints\<close>

lemma created_active_base:
  assumes "create_model ptv ppv d = Inr m"
  shows "active m total_representative_days" "active m each_non_extreme_day_is_represented"
    "active m total_represented_days" "active m represented_by_representative"
  using create_model_Inr(1) [OF assms] by (simp_all add: apply_options_active)

lemma created_base:
  assumes "create_model ptv ppv d = Inr m" and "feasible m s"
  shows "(\<Sum>i = 1..n_days m. s (y i)) = of_int (n_clusters m)"
    and "\<forall>j\<in>{1..n_days m}. (\<Sum>i = 1..n_days m. s (z (i, j))) \<le> 1"
    and "(\<Sum>i = 1..n_days m. \<Sum>j = 1..n_days m. s (z (i, j))) = of_int (n_days m - n_extreme_days m)"
    and "\<forall>i\<in>{1..n_days m}. \<forall>j\<in>{1..n_days m}. s (z (i, j)) \<le> s (y i)"
  using feasible_holds [OF assms(2) created_active_base(1) [OF assms(1)]]
    feasible_holds [OF assms(2) created_active_base(2) [OF assms(1)]]
    feasible_holds [OF assms(2) created_active_base(3) [OF assms(1)]]
    feasible_holds [OF assms(2) created_active_base(4) [OF assms(1)]]
  by (simp_all only: holds_set_form)

lemma feasible_Binary_y: "feasible m s \<Longrightarrow> i \<in> {1..n_days m} \<Longrightarrow> Binary (s (y i))"
  by (rule feasible_Binary) (auto simp add: set_variables)

lemma feasible_Binary_z:
  "feasible m s \<Longrightarrow> i \<in> {1..n_days m} \<Longrightarrow> j \<in> {1..n_days m} \<Longrightarrow> Binary (s (z (i, j)))"
  by (rule feasible_Binary) (auto simp add: set_variables)

lemma feasible_Binary_w:
  "feasible m s \<Longrightarrow> p \<in> set (Properties m) \<Longrightarrow> i \<in> {1..n_days m} \<Longrightarrow> Binary (s (w (p, i)))"
  by (rule feasible_Binary) (auto simp add: set_variables)

subsection \<open>The plain model in terms of sums over \<open>1..n_days\<close>\<close>

lemma sum_Days_milp: "(\<Sum>i\<leftarrow>Days_milp m. f i) = (\<Sum>i = 1..n_days m. (f i :: real))"
  by (simp add: Days_milp_def sum_list_upto)

lemma sum_Days_cross_milp:
  "(\<Sum>ij\<leftarrow>Days_cross_milp m. (f ij :: real)) = (\<Sum>i = 1..n_days m. \<Sum>j = 1..n_days m. f (i, j))"
  by (simp add: Days_cross_milp_def sum_list_product sum_Days_milp)

lemma set_Days_milp: "set (Days_milp m) = {1..n_days m}"
  by (simp add: Days_milp_def)

lemma set_Days_cross_milp: "set (Days_cross_milp m) = {1..n_days m} \<times> {1..n_days m}"
  by (simp add: Days_cross_milp_def set_Days_milp)

lemma feasible_milp_iff:
  "feasible_milp m s \<longleftrightarrow>
     (\<forall>i\<in>{1..n_days m}. Binary (s (y i))) \<and>
     (\<forall>i\<in>{1..n_days m}. \<forall>j\<in>{1..n_days m}. Binary (s (z (i, j)))) \<and>
     (\<Sum>i = 1..n_days m. s (y i)) = of_int (n_clusters m) \<and>
     (\<forall>j\<in>{1..n_days m}. (\<Sum>i = 1..n_days m. s (z (i, j))) \<le> 1) \<and>
     (\<Sum>i = 1..n_days m. \<Sum>j = 1..n_days m. s (z (i, j))) = of_int (n_days m - n_extreme_days m) \<and>
     (\<forall>i\<in>{1..n_days m}. \<forall>j\<in>{1..n_days m}. s (z (i, j)) \<le> s (y i))"
  by (auto simp add: feasible_milp_def variables_milp_def constraints_milp_def domain_milp_def
      list_all_iff set_Days_milp set_Days_cross_milp sum_Days_milp sum_Days_cross_milp
      total_representative_days_milp_def each_non_extreme_day_is_represented_milp_def
      total_represented_days_milp_def represented_by_representative_milp_def)

lemmas milp_defs = create_model_milp_def declare_components_milp_def PositiveIntegers_def
  NonNegativeIntegers_def n_extreme_days_def two_days_def milp_input.truncate_def missing_def
  param_values_def feasible_milp_def variables_milp_def
  constraints_milp_def domain_milp_def Binary_def Days_milp_def Days_cross_milp_def
  upto_1_2 upto_1_3 total_representative_days_milp_def
  each_non_extreme_day_is_represented_milp_def total_represented_days_milp_def
  represented_by_representative_milp_def

text \<open>
  Claim C4. Every feasible solution of an instance of the constrained model, whatever the
  two flags are, satisfies the four base constraint families: the \<open>y\<close> sum to
  \<^verbatim>\<open>n_clusters\<close>; for every day \<open>j\<close> the \<open>z[i,j]\<close> sum to at most 1; all
  \<open>z[i,j]\<close> together sum to \<^verbatim>\<open>n_days - n_extreme_days\<close>; and \<open>z[i,j] \<le> y[i]\<close> for
  every pair, so \<open>z[i,j] = 1\<close> implies \<open>y[i] = 1\<close>. For an instance of the plain model
  the feasible solutions are exactly the binary valuations that satisfy these four
  families.
\<close>

theorem base_constraints_hold:
  "(create_model ptv ppv d = Inr m \<and> feasible m s \<longrightarrow>
      (\<Sum>i = 1..n_days m. s (y i)) = of_int (n_clusters m) \<and>
      (\<forall>j\<in>{1..n_days m}. (\<Sum>i = 1..n_days m. s (z (i, j))) \<le> 1) \<and>
      (\<Sum>i = 1..n_days m. \<Sum>j = 1..n_days m. s (z (i, j)))
         = of_int (n_days m - n_extreme_days m) \<and>
      (\<forall>i\<in>{1..n_days m}. \<forall>j\<in>{1..n_days m}.
         s (z (i, j)) \<le> s (y i) \<and> (s (z (i, j)) = 1 \<longrightarrow> s (y i) = 1))) \<and>
   (create_model_milp d' = Inr m' \<longrightarrow>
      (feasible_milp m' s' \<longleftrightarrow>
         (\<forall>i\<in>{1..n_days m'}. Binary (s' (y i))) \<and>
         (\<forall>i\<in>{1..n_days m'}. \<forall>j\<in>{1..n_days m'}. Binary (s' (z (i, j)))) \<and>
         (\<Sum>i = 1..n_days m'. s' (y i)) = of_int (n_clusters m') \<and>
         (\<forall>j\<in>{1..n_days m'}. (\<Sum>i = 1..n_days m'. s' (z (i, j))) \<le> 1) \<and>
         (\<Sum>i = 1..n_days m'. \<Sum>j = 1..n_days m'. s' (z (i, j)))
            = of_int (n_days m' - n_extreme_days m') \<and>
         (\<forall>i\<in>{1..n_days m'}. \<forall>j\<in>{1..n_days m'}.
            s' (z (i, j)) \<le> s' (y i) \<and> (s' (z (i, j)) = 1 \<longrightarrow> s' (y i) = 1))))"
proof (intro conjI impI)
  assume a: "create_model ptv ppv d = Inr m \<and> feasible m s"
  then have c: "create_model ptv ppv d = Inr m" and f: "feasible m s" by simp_all
  show "(\<Sum>i = 1..n_days m. s (y i)) = of_int (n_clusters m)"
    by (rule created_base(1) [OF c f])
  show "\<forall>j\<in>{1..n_days m}. (\<Sum>i = 1..n_days m. s (z (i, j))) \<le> 1"
    by (rule created_base(2) [OF c f])
  show "(\<Sum>i = 1..n_days m. \<Sum>j = 1..n_days m. s (z (i, j))) = of_int (n_days m - n_extreme_days m)"
    by (rule created_base(3) [OF c f])
  show "\<forall>i\<in>{1..n_days m}. \<forall>j\<in>{1..n_days m}.
         s (z (i, j)) \<le> s (y i) \<and> (s (z (i, j)) = 1 \<longrightarrow> s (y i) = 1)"
  proof (intro ballI conjI impI)
    fix i j assume i: "i \<in> {1..n_days m}" and j: "j \<in> {1..n_days m}"
    from created_base(4) [OF c f] i j show le: "s (z (i, j)) \<le> s (y i)" by blast
    assume "s (z (i, j)) = 1"
    with le feasible_Binary_y [OF f i] feasible_Binary_z [OF f i j]
    show "s (y i) = 1" by (auto simp add: Binary_def)
  qed
next
  assume "create_model_milp d' = Inr m'"
  show "feasible_milp m' s' \<longleftrightarrow>
         (\<forall>i\<in>{1..n_days m'}. Binary (s' (y i))) \<and>
         (\<forall>i\<in>{1..n_days m'}. \<forall>j\<in>{1..n_days m'}. Binary (s' (z (i, j)))) \<and>
         (\<Sum>i = 1..n_days m'. s' (y i)) = of_int (n_clusters m') \<and>
         (\<forall>j\<in>{1..n_days m'}. (\<Sum>i = 1..n_days m'. s' (z (i, j))) \<le> 1) \<and>
         (\<Sum>i = 1..n_days m'. \<Sum>j = 1..n_days m'. s' (z (i, j)))
            = of_int (n_days m' - n_extreme_days m') \<and>
         (\<forall>i\<in>{1..n_days m'}. \<forall>j\<in>{1..n_days m'}.
            s' (z (i, j)) \<le> s' (y i) \<and> (s' (z (i, j)) = 1 \<longrightarrow> s' (y i) = 1))"
  proof -
    have forced: "s' (y i) = 1"
      if "\<forall>i\<in>{1..n_days m'}. Binary (s' (y i))"
        and "\<forall>i\<in>{1..n_days m'}. \<forall>j\<in>{1..n_days m'}. s' (z (i, j)) \<le> s' (y i)"
        and "i \<in> {1..n_days m'}" and "j \<in> {1..n_days m'}" and "s' (z (i, j)) = 1"
      for i j
    proof -
      from that have "Binary (s' (y i))" and "s' (z (i, j)) \<le> s' (y i)" by blast+
      with that(5) show ?thesis by (auto simp add: Binary_def)
    qed
    show ?thesis
      unfolding feasible_milp_iff using forced by blast
  qed
qed

theorem base_constraints_hold_witness:
  "create_model True True (two_days 2 (1/2))
     = Inr (apply_options (declare_components True True (two_days 2 (1/2)))) \<and>
   feasible (apply_options (declare_components True True (two_days 2 (1/2)))) own_cluster \<and>
   (\<Sum>i = 1..2. own_cluster (y i)) = 2 \<and>
   (\<Sum>i = 1..2. \<Sum>j = 1..2. own_cluster (z (i, j))) = 2 \<and>
   create_model_milp (milp_input.truncate (two_days 2 (1/2)))
     = Inr (declare_components_milp (milp_input.truncate (two_days 2 (1/2)))) \<and>
   feasible_milp (declare_components_milp (milp_input.truncate (two_days 2 (1/2)))) own_cluster"
proof -
  let ?M = "apply_options (declare_components True True (two_days 2 (1/2)))"
  let ?I = "milp_input.truncate (two_days 2 (1/2))"
  let ?D = "declare_components_milp ?I"
  have c: "create_model True True (two_days 2 (1/2)) = Inr ?M"
    by (simp add: model_defs)
  have f: "feasible ?M own_cluster"
    by (simp add: model_defs rule_defs own_cluster_def)
  have c': "create_model_milp ?I = Inr ?D"
    by (simp add: milp_defs)
  have f': "feasible_milp ?D own_cluster"
    by (simp add: milp_defs own_cluster_def)
  have n: "n_days ?M = 2" "n_clusters ?M = 2" "n_extreme_days ?M = 0"
    by (simp_all add: two_days_def n_extreme_days_def)
  from base_constraints_hold [of True True "two_days 2 (1/2)" ?M own_cluster ?I ?D own_cluster]
    c f
  have "(\<Sum>i = 1..n_days ?M. own_cluster (y i)) = of_int (n_clusters ?M)"
    and "(\<Sum>i = 1..n_days ?M. \<Sum>j = 1..n_days ?M. own_cluster (z (i, j)))
          = of_int (n_days ?M - n_extreme_days ?M)"
    by blast+
  with n c f c' f' show ?thesis by (simp only: simp_thms) simp
qed

section \<open>The weights of the days\<close>

lemma x_weight_total:
  assumes "0 \<le> n_days m"
  shows "(\<Sum>i = 1..n_days m. x_weight m s i) = of_int (n_days m)"
proof -
  have "(\<Sum>i = 1..n_days m. x_weight m s i) =
      (\<Sum>i = 1..n_days m. \<Sum>j = 1..n_days m. s (z (i, j))) + (\<Sum>i = 1..n_days m. 1)
        - (\<Sum>i = 1..n_days m. \<Sum>k = 1..n_days m. s (z (k, i)))"
    by (simp add: x_weight_sum sum.distrib sum_subtractf)
  also have "(\<Sum>i = 1..n_days m. \<Sum>k = 1..n_days m. s (z (k, i)))
      = (\<Sum>i = 1..n_days m. \<Sum>j = 1..n_days m. s (z (i, j)))"
    by (rule sum.swap)
  also have "(\<Sum>i = 1..n_days m. (1::real)) = of_int (n_days m)"
    using assms by simp
  finally show ?thesis by simp
qed


lemma column_sum_cases:
  assumes "feasible m s" and "i \<in> {1..n_days m}"
    and "(\<Sum>k = 1..n_days m. s (z (k, i))) \<le> 1"
  shows "(\<Sum>k = 1..n_days m. s (z (k, i))) = (if \<forall>k\<in>{1..n_days m}. s (z (k, i)) = 0 then 0 else 1)"
proof -
  have b: "\<forall>k\<in>{1..n_days m}. Binary (s (z (k, i)))"
    using feasible_Binary_z [OF assms(1) _ assms(2)] by blast
  have eq: "(\<Sum>k = 1..n_days m. s (z (k, i))) = of_nat (card {k \<in> {1..n_days m}. s (z (k, i)) = 1})"
    by (rule sum_Binary_card) (use b in simp_all)
  show ?thesis
  proof (cases "\<forall>k\<in>{1..n_days m}. s (z (k, i)) = 0")
    case True
    then have "(\<Sum>k = 1..n_days m. s (z (k, i))) = 0"
      by (intro sum.neutral) simp
    also from True have "0 = (if \<forall>k\<in>{1..n_days m}. s (z (k, i)) = 0 then 0 else (1::real))"
      by (rule if_P [symmetric])
    finally show ?thesis .
  next
    case False
    then obtain k where k: "k \<in> {1..n_days m}" "s (z (k, i)) \<noteq> 0" by blast
    with b have "s (z (k, i)) = 1" by (auto simp add: Binary_def)
    with k have "k \<in> {k \<in> {1..n_days m}. s (z (k, i)) = 1}" by simp
    moreover have "finite {k \<in> {1..n_days m}. s (z (k, i)) = 1}"
      by (rule finite_subset [of _ "{1..n_days m}"]) auto
    ultimately have "card {k \<in> {1..n_days m}. s (z (k, i)) = 1} \<noteq> 0"
      by (simp only: card_eq_0_iff) blast
    moreover from eq assms(3) have "card {k \<in> {1..n_days m}. s (z (k, i)) = 1} \<le> 1"
      by simp
    ultimately have "card {k \<in> {1..n_days m}. s (z (k, i)) = 1} = 1" by linarith
    with eq have "(\<Sum>k = 1..n_days m. s (z (k, i))) = 1" by simp
    also from False have "1 = (if \<forall>k\<in>{1..n_days m}. s (z (k, i)) = 0 then 0 else (1::real))"
      by (rule if_not_P [symmetric])
    finally show ?thesis .
  qed
qed


lemma not_chosen_weight_zero:
  assumes c: "create_model ptv ppv d = Inr m" and f: "feasible m s"
    and i: "i \<in> {1..n_days m}"
    and ny: "s (y i) \<noteq> 1" and cov: "\<not> (\<forall>k\<in>{1..n_days m}. s (z (k, i)) = 0)"
  shows "x_weight m s i = 0"
proof -
  from feasible_Binary_y [OF f i] ny have y0: "s (y i) = 0"
    by (simp add: Binary_def)
  have "s (z (i, j)) = 0" if "j \<in> {1..n_days m}" for j
  proof -
    from created_base(4) [OF c f] i that have "s (z (i, j)) \<le> s (y i)" by blast
    with y0 feasible_Binary_z [OF f i that] show ?thesis by (auto simp add: Binary_def)
  qed
  then have row: "(\<Sum>j = 1..n_days m. s (z (i, j))) = 0"
    by (intro sum.neutral) simp
  from created_base(2) [OF c f] i have "(\<Sum>k = 1..n_days m. s (z (k, i))) \<le> 1" by blast
  from column_sum_cases [OF f i this] cov have col: "(\<Sum>k = 1..n_days m. s (z (k, i))) = 1"
    by simp
  show ?thesis by (simp add: x_weight_sum row col)
qed

text \<open>
  Claim C10. Weight conservation. In an instance of the constrained model, for every
  valuation of the variables, feasible or not, the weights of \<^verbatim>\<open>_x_weight\<close> sum to
  \<^verbatim>\<open>n_days\<close>. Hence the estimated total of a property whose daily total is the same
  on every day equals its true total; and in a feasible solution the whole weight
  \<^verbatim>\<open>n_days\<close> lies on the days that are representatives or are assigned to no
  representative, every other day having weight 0.
\<close>

theorem weight_conservation:
  assumes "create_model ptv ppv d = Inr m"
  shows "(\<Sum>i\<leftarrow>Days m. x_weight m s i) = of_int (n_days m) \<and>
     (\<Sum>i = 1..n_days m.
        (\<Sum>j = 1..n_days m. s (z (i, j))) + (1 - (\<Sum>k = 1..n_days m. s (z (k, i)))))
       = of_int (n_days m) \<and>
     ((\<forall>i\<in>{1..n_days m}. x_daily_tot m (p, i) = c) \<longrightarrow>
        x_total_estimated m s p = x_total m p) \<and>
     (feasible m s \<longrightarrow>
        (\<Sum>i\<in>{i \<in> {1..n_days m}. s (y i) = 1 \<or> (\<forall>k\<in>{1..n_days m}. s (z (k, i)) = 0)}.
           x_weight m s i) = of_int (n_days m))"
proof (intro conjI impI)
  from create_model_Inr [OF assms] have n: "0 \<le> n_days m" by simp
  show total: "(\<Sum>i\<leftarrow>Days m. x_weight m s i) = of_int (n_days m)"
    by (simp only: sum_Days x_weight_total [OF n])
  from x_weight_total [OF n, of s]
  show "(\<Sum>i = 1..n_days m.
        (\<Sum>j = 1..n_days m. s (z (i, j))) + (1 - (\<Sum>k = 1..n_days m. s (z (k, i)))))
       = of_int (n_days m)"
    by (simp only: x_weight_sum)
  {
    assume const: "\<forall>i\<in>{1..n_days m}. x_daily_tot m (p, i) = c"
    have "x_total_estimated m s p = (\<Sum>i = 1..n_days m. x_weight m s i * c)"
      unfolding x_total_estimated_def sum_Days using const by (intro sum.cong) simp_all
    also have "\<dots> = (\<Sum>i = 1..n_days m. x_weight m s i) * c"
      by (simp only: sum_distrib_right)
    also have "\<dots> = of_int (n_days m) * c"
      by (simp only: x_weight_total [OF n])
    also have "\<dots> = (\<Sum>i = 1..n_days m. c)"
      using n by simp
    also have "\<dots> = x_total m p"
      unfolding x_total_def sum_Days using const by (intro sum.cong) simp_all
    finally show "x_total_estimated m s p = x_total m p" .
  }
  {
    assume f: "feasible m s"
    let ?S = "{i \<in> {1..n_days m}. s (y i) = 1 \<or> (\<forall>k\<in>{1..n_days m}. s (z (k, i)) = 0)}"
    have "sum (x_weight m s) {1..n_days m} = sum (x_weight m s) ?S"
    proof (rule sum.mono_neutral_right)
      show "finite {1..n_days m}" by simp
      show "?S \<subseteq> {1..n_days m}" by blast
      show "\<forall>i\<in>{1..n_days m} - ?S. x_weight m s i = 0"
      proof
        fix i assume "i \<in> {1..n_days m} - ?S"
        then have "i \<in> {1..n_days m}" "s (y i) \<noteq> 1" "\<not> (\<forall>k\<in>{1..n_days m}. s (z (k, i)) = 0)"
          by blast+
        then show "x_weight m s i = 0" by (rule not_chosen_weight_zero [OF assms f])
      qed
    qed
    with x_weight_total [OF n, of s] show "sum (x_weight m s) ?S = of_int (n_days m)"
      by simp
  }
qed

theorem weight_conservation_witness:
  "create_model True True (two_days 1 0)
     = Inr (apply_options (declare_components True True (two_days 1 0))) \<and>
   feasible (apply_options (declare_components True True (two_days 1 0))) one_cluster \<and>
   x_weight (apply_options (declare_components True True (two_days 1 0))) one_cluster 1 = 2 \<and>
   x_weight (apply_options (declare_components True True (two_days 1 0))) one_cluster 2 = 0 \<and>
   (\<Sum>i\<leftarrow>Days (apply_options (declare_components True True (two_days 1 0))).
      x_weight (apply_options (declare_components True True (two_days 1 0))) one_cluster i) = 2 \<and>
   x_total_estimated (apply_options (declare_components True True (two_days 1 0))) one_cluster ''load''
     = x_total (apply_options (declare_components True True (two_days 1 0))) ''load''"
proof -
  let ?M = "apply_options (declare_components True True (two_days 1 0))"
  have c: "create_model True True (two_days 1 0) = Inr ?M"
    by (simp add: model_defs)
  have f: "feasible ?M one_cluster"
    by (simp add: model_defs rule_defs one_cluster_def)
  have w: "x_weight ?M one_cluster 1 = 2" "x_weight ?M one_cluster 2 = 0"
    by (simp_all add: x_weight_def Days_def two_days_def upto_1_2 one_cluster_def)
  have n: "of_int (n_days ?M) = (2::real)"
    by (simp add: two_days_def)
  have k: "\<forall>i\<in>{1..n_days ?M}. x_daily_tot ?M (''load'', i) = 1"
    by (simp add: two_days_def param_values_def)
  from weight_conservation [OF c, of one_cluster "''load''" 1] k n
  have "(\<Sum>i\<leftarrow>Days ?M. x_weight ?M one_cluster i) = 2"
    and "x_total_estimated ?M one_cluster ''load'' = x_total ?M ''load''"
    by (simp_all only:)
  with c f w show ?thesis by (simp only: simp_thms)
qed

section \<open>Preservation of the total values\<close>

lemma created_active:
  assumes "create_model ptv ppv d = Inr m"
  shows "active m c \<longleftrightarrow>
     (ptv \<or> (c \<noteq> relative_error_upper \<and> c \<noteq> relative_error_lower)) \<and>
     (ppv \<or> (c \<noteq> preserve_peak \<and> c \<noteq> at_least_one_preserved))"
  using create_model_Inr(1) [OF assms] by (simp add: apply_options_active)

lemma created_data:
  assumes "create_model ptv ppv d = Inr m"
  shows "n_days m = n_days d" "n_clusters m = n_clusters d" "n_extreme_days m = n_extreme_days d"
    "Properties m = Properties_data d" "x_daily_max m = x_daily_max_data d"
    "x_max m = x_max_data d"
  using create_model_Inr(1) [OF assms] by simp_all

lemma param_values_present:
  assumes "\<not> missing f ks" and "k \<in> set ks"
  shows "f k = Some (param_values f k)"
proof -
  from assms obtain v where "f k = Some v"
    by (auto simp add: missing_iff)
  then show ?thesis by (simp add: param_values_def)
qed

lemma created_values:
  assumes c: "create_model ptv ppv d = Inr m"
  shows "p \<in> set (Properties m) \<Longrightarrow> i \<in> {1..n_days m} \<Longrightarrow>
      x_daily_tot_data d (p, i) = Some (x_daily_tot m (p, i))"
    and "p \<in> set (Properties m) \<Longrightarrow> rel_tol_data d p = Some (rel_tol m p)"
    and "p \<in> set (Properties m) \<Longrightarrow> min_peak_share_data d p = Some (min_peak_share m p)"
    and "i \<in> {1..n_days m} \<Longrightarrow> j \<in> {1..n_days m} \<Longrightarrow>
      distance_data d (i, j) = Some (distance m (i, j))"
proof -
  note m = create_model_Inr(1) [OF c]
  show "x_daily_tot_data d (p, i) = Some (x_daily_tot m (p, i))"
    if "p \<in> set (Properties m)" and "i \<in> {1..n_days m}"
    using param_values_present [OF create_model_Inr(5) [OF c], of "(p, i)"] that
    by (simp add: m set_Days)
  show "rel_tol_data d p = Some (rel_tol m p)" if "p \<in> set (Properties m)"
    using param_values_present [OF create_model_Inr(6) [OF c], of p] that by (simp add: m)
  show "min_peak_share_data d p = Some (min_peak_share m p)" if "p \<in> set (Properties m)"
    using param_values_present [OF create_model_Inr(7) [OF c], of p] that by (simp add: m)
  show "distance_data d (i, j) = Some (distance m (i, j))"
    if "i \<in> {1..n_days m}" and "j \<in> {1..n_days m}"
    using param_values_present [OF create_model_Inr(8) [OF c], of "(i, j)"] that
    by (simp add: m set_Days_cross)
qed

lemma x_weight_counts:
  assumes c: "create_model ptv ppv d = Inr m" and f: "feasible m s" and i: "i \<in> {1..n_days m}"
  shows "x_weight m s i =
     of_nat (card {j \<in> {1..n_days m}. s (z (i, j)) = 1}) +
     (if \<forall>k\<in>{1..n_days m}. s (z (k, i)) = 0 then 1 else 0)"
proof -
  have "\<forall>j\<in>{1..n_days m}. Binary (s (z (i, j)))"
    using feasible_Binary_z [OF f i] by blast
  then have row: "(\<Sum>j = 1..n_days m. s (z (i, j))) = of_nat (card {j \<in> {1..n_days m}. s (z (i, j)) = 1})"
    by (intro sum_Binary_card) simp_all
  from created_base(2) [OF c f] i have "(\<Sum>k = 1..n_days m. s (z (k, i))) \<le> 1" by blast
  from column_sum_cases [OF f i this]
  have col: "1 - (\<Sum>k = 1..n_days m. s (z (k, i))) = (if \<forall>k\<in>{1..n_days m}. s (z (k, i)) = 0 then 1 else 0)"
    by (simp split: if_splits)
  show ?thesis
    unfolding x_weight_sum row col ..
qed

text \<open>
  Claim C3. With \<^verbatim>\<open>preserve_total_values\<close> enabled, the two one-sided constraints
  \<^verbatim>\<open>relative_error_upper\<close> and \<^verbatim>\<open>relative_error_lower\<close> are both active, so for every
  property \<open>p\<close> a feasible solution keeps the estimated total, the sum over the days of
  weight times daily total, between \<open>(1 - rel_tol[p])\<close> and \<open>(1 + rel_tol[p])\<close> times the
  true total. The true total is the sum of the daily totals given by the input data and
  does not depend on the solution. The weight of day \<open>i\<close> is the number of days assigned to
  \<open>i\<close>, plus 1 if \<open>i\<close> is assigned to no representative.
\<close>

theorem total_values_preserved:
  assumes "create_model True ppv d = Inr m" and "feasible m s" and "p \<in> set (Properties m)"
  shows "active m relative_error_upper \<and> active m relative_error_lower \<and>
     relative_error_upper_rule m s p \<and> relative_error_lower_rule m s p \<and>
     (\<forall>i\<in>{1..n_days d}. x_daily_tot_data d (p, i) = Some (x_daily_tot m (p, i))) \<and>
     x_total m p = (\<Sum>i = 1..n_days d. x_daily_tot m (p, i)) \<and>
     x_total_estimated m s p = (\<Sum>i = 1..n_days m. x_weight m s i * x_daily_tot m (p, i)) \<and>
     (\<forall>i\<in>{1..n_days m}.
        x_weight m s i =
          of_nat (card {j \<in> {1..n_days m}. s (z (i, j)) = 1}) +
          (if \<forall>k\<in>{1..n_days m}. s (z (k, i)) = 0 then 1 else 0)) \<and>
     (1 - rel_tol m p) * x_total m p \<le> x_total_estimated m s p \<and>
     x_total_estimated m s p \<le> (1 + rel_tol m p) * x_total m p"
proof -
  have up: "active m relative_error_upper" and lo: "active m relative_error_lower"
    by (simp_all add: created_active [OF assms(1)])
  from feasible_holds [OF assms(2) up] assms(3) have u: "relative_error_upper_rule m s p"
    by (simp add: list_all_iff)
  from feasible_holds [OF assms(2) lo] assms(3) have l: "relative_error_lower_rule m s p"
    by (simp add: list_all_iff)
  have v: "\<forall>i\<in>{1..n_days d}. x_daily_tot_data d (p, i) = Some (x_daily_tot m (p, i))"
    using created_values(1) [OF assms(1,3)] by (simp add: created_data(1) [OF assms(1)])
  have t: "x_total m p = (\<Sum>i = 1..n_days d. x_daily_tot m (p, i))"
    by (simp add: x_total_def sum_Days created_data(1) [OF assms(1)])
  have e: "x_total_estimated m s p = (\<Sum>i = 1..n_days m. x_weight m s i * x_daily_tot m (p, i))"
    by (simp add: x_total_estimated_def sum_Days)
  have wt: "\<forall>i\<in>{1..n_days m}.
        x_weight m s i =
          of_nat (card {j \<in> {1..n_days m}. s (z (i, j)) = 1}) +
          (if \<forall>k\<in>{1..n_days m}. s (z (k, i)) = 0 then 1 else 0)"
    using x_weight_counts [OF assms(1,2)] by blast
  from u have ub: "x_total_estimated m s p \<le> (1 + rel_tol m p) * x_total m p"
    by (simp only: relative_error_upper_rule_def)
  from l have lb: "(1 - rel_tol m p) * x_total m p \<le> x_total_estimated m s p"
    by (simp only: relative_error_lower_rule_def)
  from up lo u l v t e wt lb ub show ?thesis by blast
qed

theorem total_values_preserved_witness:
  "create_model True True (two_days 2 (1/2))
     = Inr (apply_options (declare_components True True (two_days 2 (1/2)))) \<and>
   feasible (apply_options (declare_components True True (two_days 2 (1/2)))) own_cluster \<and>
   ''load'' \<in> set (Properties (apply_options (declare_components True True (two_days 2 (1/2))))) \<and>
   x_total (apply_options (declare_components True True (two_days 2 (1/2)))) ''load'' = 2 \<and>
   x_total_estimated (apply_options (declare_components True True (two_days 2 (1/2))))
      own_cluster ''load'' \<le> 2 \<and>
   2 \<le> x_total_estimated (apply_options (declare_components True True (two_days 2 (1/2))))
      own_cluster ''load''"
proof -
  let ?M = "apply_options (declare_components True True (two_days 2 (1/2)))"
  have c: "create_model True True (two_days 2 (1/2)) = Inr ?M"
    by (simp add: model_defs)
  have f: "feasible ?M own_cluster"
    by (simp add: model_defs rule_defs own_cluster_def)
  have p: "''load'' \<in> set (Properties ?M)"
    by (simp add: two_days_def)
  have t: "x_total ?M ''load'' = 2" and r: "rel_tol ?M ''load'' = 0"
    by (simp_all add: x_total_def Days_def two_days_def upto_1_2 param_values_def)
  from total_values_preserved [OF c f p]
  have "(1 - rel_tol ?M ''load'') * x_total ?M ''load'' \<le> x_total_estimated ?M own_cluster ''load''"
    and "x_total_estimated ?M own_cluster ''load'' \<le> (1 + rel_tol ?M ''load'') * x_total ?M ''load''"
    by blast+
  then have "2 \<le> x_total_estimated ?M own_cluster ''load''"
    and "x_total_estimated ?M own_cluster ''load'' \<le> 2"
    by (simp_all only: t r) simp_all
  with c f p t show ?thesis by (simp only: simp_thms)
qed

section \<open>Preservation of the peak values\<close>

text \<open>
  Claim C2 states that, with \<^verbatim>\<open>preserve_peak_values\<close> enabled, every feasible solution
  has for each property a day with \<open>w[p,i] = 1\<close>, and that every such day is a chosen
  day, a representative or an extreme day, whose daily maximum reaches
  \<open>min_peak_share[p] * x_max[p]\<close>. The constraint \<^verbatim>\<open>preserve_peak\<close> multiplies the
  daily maximum by the source's \<open>chosen\<close>, which is 0 on a representative that
  represents two days and 1 on a day that is assigned to it. With two days, one cluster,
  a minimum peak share of one half and the maximum of day 1 at one tenth of the overall
  maximum, the instance is constructed, and the solution in which day 1 represents both
  days and day 2 is the only peak witness is feasible. Day 2 is not a representative and
  is assigned to day 1, so it is not a chosen day; day 1, the only chosen day, stays
  below the threshold; and moving the witness to day 1 makes the solution infeasible.
\<close>

theorem peak_witness_on_represented_day:
  "create_model True True low_peak_on_first_day
     = Inr (apply_options (declare_components True True low_peak_on_first_day)) \<and>
   feasible (apply_options (declare_components True True low_peak_on_first_day))
     witness_on_second_day \<and>
   witness_on_second_day (w (''load'', 1)) = 0 \<and>
   witness_on_second_day (w (''load'', 2)) = 1 \<and>
   witness_on_second_day (y 2) = 0 \<and>
   witness_on_second_day (z (1, 2)) = 1 \<and>
   chosen_documented (apply_options (declare_components True True low_peak_on_first_day))
     witness_on_second_day 2 = 0 \<and>
   chosen (apply_options (declare_components True True low_peak_on_first_day))
     witness_on_second_day 2 = 1 \<and>
   witness_on_second_day (y 1) = 1 \<and>
   chosen (apply_options (declare_components True True low_peak_on_first_day))
     witness_on_second_day 1 = 0 \<and>
   x_daily_max (apply_options (declare_components True True low_peak_on_first_day)) (''load'', 1)
     = Some (1/10) \<and>
   x_max (apply_options (declare_components True True low_peak_on_first_day)) ''load'' = Some 1 \<and>
   min_peak_share (apply_options (declare_components True True low_peak_on_first_day)) ''load''
     = 1/2 \<and>
   \<not> feasible (apply_options (declare_components True True low_peak_on_first_day))
     (witness_on_second_day (w (''load'', 1) := 1))"
proof -
  let ?M = "apply_options (declare_components True True low_peak_on_first_day)"
  have c: "create_model True True low_peak_on_first_day = Inr ?M"
    by (simp add: model_defs low_peak_on_first_day_def)
  have f: "feasible ?M witness_on_second_day"
    by (simp add: model_defs rule_defs low_peak_on_first_day_def witness_on_second_day_def)
  have v: "witness_on_second_day (w (''load'', 1)) = 0"
    "witness_on_second_day (w (''load'', 2)) = 1"
    "witness_on_second_day (y 2) = 0" "witness_on_second_day (z (1, 2)) = 1"
    "witness_on_second_day (y 1) = 1"
    by (simp_all add: witness_on_second_day_def)
  have e: "chosen_documented ?M witness_on_second_day 2 = 0"
    "chosen ?M witness_on_second_day 2 = 1" "chosen ?M witness_on_second_day 1 = 0"
    by (simp_all add: chosen_documented_def chosen_def Days_def upto_1_2 two_days_def
        low_peak_on_first_day_def witness_on_second_day_def)
  have d: "x_daily_max ?M (''load'', 1) = Some (1/10)" "x_max ?M ''load'' = Some 1"
    "min_peak_share ?M ''load'' = 1/2"
    by (simp_all add: two_days_def low_peak_on_first_day_def param_values_def)
  have n: "\<not> feasible ?M (witness_on_second_day (w (''load'', 1) := 1))"
    by (simp add: model_defs rule_defs low_peak_on_first_day_def witness_on_second_day_def)
  from c f v e d n show ?thesis by (simp only: simp_thms)
qed

section \<open>The expression \<^verbatim>\<open>chosen\<close>\<close>

text \<open>
  Claim C1 states that \<open>chosen(i) = y[i] + (1 - \<Sum>k. z[k,i])\<close> and that it is 1 exactly
  on the days that are representatives or are assigned to no representative. The
  source's \<^verbatim>\<open>_chosen\<close> sums \<open>z[i,j]\<close> over \<open>j\<close>, the days that \<open>i\<close> represents,
  instead. On the feasible solution where day 1 represents both of two days, the
  source's expression is 0 on day 1, the representative, and 1 on day 2, which is not a
  representative and is assigned to day 1; the documented formula gives 1 and 0.
\<close>

theorem chosen_sums_the_wrong_index:
  "create_model True True (two_days 1 0)
     = Inr (apply_options (declare_components True True (two_days 1 0))) \<and>
   feasible (apply_options (declare_components True True (two_days 1 0))) one_cluster \<and>
   one_cluster (y 1) = 1 \<and>
   chosen (apply_options (declare_components True True (two_days 1 0))) one_cluster 1 = 0 \<and>
   chosen_documented (apply_options (declare_components True True (two_days 1 0))) one_cluster 1 = 1 \<and>
   one_cluster (y 2) = 0 \<and>
   (\<Sum>k\<leftarrow>Days (apply_options (declare_components True True (two_days 1 0))).
      one_cluster (z (k, 2))) = 1 \<and>
   chosen (apply_options (declare_components True True (two_days 1 0))) one_cluster 2 = 1 \<and>
   chosen_documented (apply_options (declare_components True True (two_days 1 0))) one_cluster 2 = 0"
  by (simp add: model_defs rule_defs one_cluster_def chosen_documented_def)

section \<open>The constrained model without preservation is the plain model\<close>

lemma truncate_fields [simp]:
  "n_days (milp_data.truncate m) = n_days m"
  "n_clusters (milp_data.truncate m) = n_clusters m"
  "n_extreme_days_data (milp_data.truncate m) = n_extreme_days_data m"
  "distance (milp_data.truncate m) = distance m"
  "n_extreme_days (milp_data.truncate m) = n_extreme_days m"
  by (simp_all add: milp_data.truncate_def n_extreme_days_def)

lemma input_truncate_fields [simp]:
  "n_days (milp_input.truncate d) = n_days d"
  "n_clusters (milp_input.truncate d) = n_clusters d"
  "n_extreme_days_data (milp_input.truncate d) = n_extreme_days_data d"
  "distance_data (milp_input.truncate d) = distance_data d"
  "n_extreme_days (milp_input.truncate d) = n_extreme_days d"
  by (simp_all add: milp_input.truncate_def n_extreme_days_def)

lemma created_truncate:
  assumes "create_model ptv ppv d = Inr m"
  shows "milp_data.truncate m = declare_components_milp (milp_input.truncate d)"
  using create_model_Inr(1) [OF assms]
  by (simp add: milp_data.truncate_def declare_components_milp_def)

lemma created_milp:
  assumes "create_model ptv ppv d = Inr m"
  shows "create_model_milp (milp_input.truncate d) = Inr (milp_data.truncate m)"
proof -
  have "Days_cross_milp (milp_input.truncate d) = Days_cross d"
    by (simp add: Days_cross_milp_def Days_cross_def Days_milp_def Days_def)
  with create_model_Inr(2-4,8) [OF assms] created_truncate [OF assms]
  show ?thesis
    by (simp add: create_model_milp_def PositiveIntegers_def NonNegativeIntegers_def)
qed

lemma created_fixed:
  assumes "create_model ptv ppv d = Inr m"
  shows "fixed m v \<longleftrightarrow> \<not> ppv \<and> (\<exists>ix. v = w ix)"
  using create_model_Inr(1) [OF assms] by (cases v) (simp_all add: apply_options_fixed)

lemma created_val_w:
  assumes "create_model ptv False d = Inr m"
  shows "val m (w ix) = Some 0"
  using create_model_Inr(1) [OF assms] by (simp add: apply_options_val)

lemma holds_milp_base:
  assumes "c \<in> set constraints_milp"
  shows "holds m s c = holds_milp (milp_data.truncate m) s c"
proof -
  have d: "Days_milp (milp_data.truncate m) = Days m"
    by (simp add: Days_milp_def Days_def)
  then have dc: "Days_cross_milp (milp_data.truncate m) = Days_cross m"
    by (simp add: Days_cross_milp_def Days_cross_def)
  from assms consider "c = total_representative_days" | "c = each_non_extreme_day_is_represented"
    | "c = total_represented_days" | "c = represented_by_representative"
    by (auto simp add: constraints_milp_def)
  then show ?thesis
  proof cases
    case 1
    then show ?thesis
      by (simp add: total_representative_days_rule_def total_representative_days_milp_def d)
  next
    case 2
    then show ?thesis
      by (simp add: list_all_iff each_non_extreme_day_is_represented_rule_def
          each_non_extreme_day_is_represented_milp_def d)
  next
    case 3
    then show ?thesis
      by (simp add: total_represented_days_rule_def total_represented_days_milp_def dc)
  next
    case 4
    then show ?thesis
      by (simp add: list_all_iff represented_by_representative_rule_def
          represented_by_representative_milp_def dc case_prod_beta)
  qed
qed

lemma total_distance_milp_eq:
  "total_distance m s = total_distance_milp (milp_data.truncate m) s"
  by (simp add: total_distance_def total_distance_milp_def Days_cross_def Days_cross_milp_def
      Days_def Days_milp_def)

lemma free_variables_plain:
  assumes "create_model ptv False d = Inr m"
  shows "filter (\<lambda>v. \<not> fixed m v) (variables m) = variables_milp (milp_data.truncate m)"
  by (simp add: variables_def variables_milp_def created_fixed [OF assms] filter_map comp_def
      Days_cross_def Days_cross_milp_def Days_def Days_milp_def)

lemma active_plain:
  assumes "create_model False False d = Inr m"
  shows "filter (active m) constraints = constraints_milp"
  by (simp add: constraints_def constraints_milp_def created_active [OF assms])

lemma feasible_plain:
  assumes c: "create_model False False d = Inr m"
  shows "feasible m s \<longleftrightarrow>
     feasible_milp (milp_data.truncate m) s \<and>
     (\<forall>p\<in>set (Properties m). \<forall>i\<in>{1..n_days m}. s (w (p, i)) = 0)"
proof -
  have vars: "list_all (admits m s) (variables m) \<longleftrightarrow>
      (\<forall>i\<in>{1..n_days m}. Binary (s (y i))) \<and>
      (\<forall>i\<in>{1..n_days m}. \<forall>j\<in>{1..n_days m}. Binary (s (z (i, j)))) \<and>
      (\<forall>p\<in>set (Properties m). \<forall>i\<in>{1..n_days m}. s (w (p, i)) = 0)"
    by (simp add: list_all_iff set_variables ball_Un admits_def var_domain_def
        created_fixed [OF c] created_val_w [OF c] Binary_def) auto
  have cons: "list_all (satisfies m s) constraints \<longleftrightarrow>
      holds m s total_representative_days \<and> holds m s each_non_extreme_day_is_represented \<and>
      holds m s total_represented_days \<and> holds m s represented_by_representative"
    by (simp add: constraints_def satisfies_def created_active [OF c])
  show ?thesis
    unfolding feasible_def vars cons feasible_milp_iff
    by (simp only: holds_set_form truncate_fields) blast
qed

text \<open>
  Claim C5. For data that pass the validation, the instance of the constrained model
  built with both flags false is, after the activation step, the plain k-medoids MILP
  built from the same counts and distances. The plain model accepts the data too; the
  active constraints are the four constraints of the plain model, with the same meaning,
  and no property-indexed constraint is active; the variables that are not fixed are the
  \<open>z\<close> and \<open>y\<close> of the plain model, with the same binary domain, the fixed ones being
  the \<open>w\<close>, at 0; the objective is the same; so a valuation is feasible for the one
  exactly when it is feasible for the other and has every \<open>w\<close> at 0.
\<close>

theorem both_flags_false_is_plain_model:
  assumes "create_model False False d = Inr m"
  shows "create_model_milp (milp_input.truncate d) = Inr (milp_data.truncate m) \<and>
     filter (active m) constraints = constraints_milp \<and>
     \<not> active m relative_error_upper \<and> \<not> active m relative_error_lower \<and>
     \<not> active m preserve_peak \<and> \<not> active m at_least_one_preserved \<and>
     (\<forall>c\<in>set constraints_milp. holds m s c = holds_milp (milp_data.truncate m) s c) \<and>
     filter (\<lambda>v. \<not> fixed m v) (variables m) = variables_milp (milp_data.truncate m) \<and>
     (\<forall>v\<in>set (variables m). var_domain v = domain_milp v) \<and>
     (\<forall>v\<in>set (variables m). fixed m v \<longrightarrow> (\<exists>ix. v = w ix) \<and> val m v = Some 0) \<and>
     total_distance m s = total_distance_milp (milp_data.truncate m) s \<and>
     (feasible m s \<longleftrightarrow>
        feasible_milp (milp_data.truncate m) s \<and>
        (\<forall>p\<in>set (Properties m). \<forall>i\<in>{1..n_days m}. s (w (p, i)) = 0))"
proof -
  have inactive: "\<not> active m relative_error_upper" "\<not> active m relative_error_lower"
    "\<not> active m preserve_peak" "\<not> active m at_least_one_preserved"
    by (simp_all add: created_active [OF assms])
  have same: "\<forall>c\<in>set constraints_milp. holds m s c = holds_milp (milp_data.truncate m) s c"
    using holds_milp_base by blast
  have dom: "\<forall>v\<in>set (variables m). var_domain v = domain_milp v"
    by (simp add: var_domain_def domain_milp_def)
  have fxd: "\<forall>v\<in>set (variables m). fixed m v \<longrightarrow> (\<exists>ix. v = w ix) \<and> val m v = Some 0"
    using created_fixed [OF assms] created_val_w [OF assms] by auto
  from created_milp [OF assms] active_plain [OF assms] inactive same
    free_variables_plain [OF assms] dom fxd total_distance_milp_eq [of m s]
    feasible_plain [OF assms, of s]
  show ?thesis by blast
qed

theorem both_flags_false_is_plain_model_witness:
  "create_model False False (two_days 2 (1/2))
     = Inr (apply_options (declare_components False False (two_days 2 (1/2)))) \<and>
   create_model_milp (milp_input.truncate (two_days 2 (1/2)))
     = Inr (milp_data.truncate (apply_options (declare_components False False (two_days 2 (1/2))))) \<and>
   filter (active (apply_options (declare_components False False (two_days 2 (1/2))))) constraints
     = constraints_milp \<and>
   feasible (apply_options (declare_components False False (two_days 2 (1/2))))
     own_cluster_unwitnessed \<and>
   feasible_milp (milp_data.truncate (apply_options (declare_components False False (two_days 2 (1/2)))))
     own_cluster_unwitnessed \<and>
   total_distance_milp
     (milp_data.truncate (apply_options (declare_components False False (two_days 2 (1/2)))))
     own_cluster_unwitnessed = 0"
proof -
  let ?M = "apply_options (declare_components False False (two_days 2 (1/2)))"
  have c: "create_model False False (two_days 2 (1/2)) = Inr ?M"
    by (simp add: model_defs)
  have f: "feasible ?M own_cluster_unwitnessed"
    by (simp add: model_defs rule_defs own_cluster_unwitnessed_def)
  have t: "total_distance ?M own_cluster_unwitnessed = 0"
    by (simp add: total_distance_def Days_cross_def Days_def two_days_def upto_1_2
        own_cluster_unwitnessed_def param_values_def)
  from both_flags_false_is_plain_model [OF c, of own_cluster_unwitnessed] f t
  have "create_model_milp (milp_input.truncate (two_days 2 (1/2))) = Inr (milp_data.truncate ?M)"
    and "filter (active ?M) constraints = constraints_milp"
    and "feasible_milp (milp_data.truncate ?M) own_cluster_unwitnessed"
    and "total_distance_milp (milp_data.truncate ?M) own_cluster_unwitnessed = 0"
    by simp_all
  with c f show ?thesis by (simp only: simp_thms)
qed

section \<open>As many clusters as days\<close>

lemmas three_days_defs = feasible_milp_def variables_milp_def constraints_milp_def
  domain_milp_def Days_milp_def Days_cross_milp_def three_days_def upto_1_3
  total_representative_days_milp_def each_non_extreme_day_is_represented_milp_def
  total_represented_days_milp_def represented_by_representative_milp_def n_extreme_days_def

lemma atLeastAtMost_1_3: "{1..3::int} = {1, 2, 3}"
  by auto

lemma Binary_bounds: "Binary v \<Longrightarrow> 0 \<le> v \<and> v \<le> 1"
  by (auto simp add: Binary_def)

lemma three_days_explicit:
  assumes f: "feasible_milp (three_days dm) s"
  shows "Binary (s (y 1))" "Binary (s (y 2))" "Binary (s (y 3))"
    and "Binary (s (z (1, 1)))" "Binary (s (z (1, 2)))" "Binary (s (z (1, 3)))"
    and "Binary (s (z (2, 1)))" "Binary (s (z (2, 2)))" "Binary (s (z (2, 3)))"
    and "Binary (s (z (3, 1)))" "Binary (s (z (3, 2)))" "Binary (s (z (3, 3)))"
    and "s (y 1) + s (y 2) + s (y 3) = 3"
    and "s (z (1, 1)) + s (z (2, 1)) + s (z (3, 1)) \<le> 1"
    and "s (z (1, 2)) + s (z (2, 2)) + s (z (3, 2)) \<le> 1"
    and "s (z (1, 3)) + s (z (2, 3)) + s (z (3, 3)) \<le> 1"
    and "s (z (1, 1)) + s (z (1, 2)) + s (z (1, 3)) + s (z (2, 1)) + s (z (2, 2)) + s (z (2, 3))
         + s (z (3, 1)) + s (z (3, 2)) + s (z (3, 3)) = 3"
  using f by (simp_all add: three_days_defs)

lemma three_days_objective:
  "total_distance_milp (three_days dm) s =
     dm (1, 1) * s (z (1, 1)) + dm (1, 2) * s (z (1, 2)) + dm (1, 3) * s (z (1, 3)) +
     dm (2, 1) * s (z (2, 1)) + dm (2, 2) * s (z (2, 2)) + dm (2, 3) * s (z (2, 3)) +
     dm (3, 1) * s (z (3, 1)) + dm (3, 2) * s (z (3, 2)) + dm (3, 3) * s (z (3, 3))"
  by (simp add: total_distance_milp_def Days_cross_milp_def Days_milp_def three_days_def upto_1_3)

lemma three_days_y:
  assumes f: "feasible_milp (three_days dm) s"
  shows "s (y 1) = 1" "s (y 2) = 1" "s (y 3) = 1"
  using three_days_explicit(1-3,13) [OF f] by (auto dest!: Binary_bounds)

lemma three_days_columns:
  assumes f: "feasible_milp (three_days dm) s"
  shows "s (z (1, 1)) + s (z (2, 1)) + s (z (3, 1)) = 1"
    and "s (z (1, 2)) + s (z (2, 2)) + s (z (3, 2)) = 1"
    and "s (z (1, 3)) + s (z (2, 3)) + s (z (3, 3)) = 1"
  using three_days_explicit(14-17) [OF f] by linarith+


lemma three_days_constructed: "create_model_milp (three_days_data dm) = Inr (three_days dm)"
  by (simp add: create_model_milp_def declare_components_milp_def PositiveIntegers_def
      NonNegativeIntegers_def n_extreme_days_def three_days_data_def three_days_def
      missing_iff param_values_def fun_eq_iff)

lemma three_days_fields [simp]:
  "n_days (three_days dm) = 3" "n_clusters (three_days dm) = 3"
  "n_extreme_days (three_days dm) = 0" "distance (three_days dm) = dm"
  by (simp_all add: three_days_def n_extreme_days_def)

lemma objective_milp_sum:
  "total_distance_milp m s = (\<Sum>i = 1..n_days m. \<Sum>j = 1..n_days m. distance m (i, j) * s (z (i, j)))"
  by (simp add: total_distance_milp_def sum_Days_cross_milp)

lemma feasible_milp_Binary_z:
  "feasible_milp m s \<Longrightarrow> i \<in> {1..n_days m} \<Longrightarrow> j \<in> {1..n_days m} \<Longrightarrow> Binary (s (z (i, j)))"
  unfolding feasible_milp_iff by blast

lemma objective_milp_nonneg:
  assumes f: "feasible_milp m s"
    and d: "\<forall>i\<in>{1..n_days m}. \<forall>j\<in>{1..n_days m}. 0 \<le> distance m (i, j)"
  shows "0 \<le> total_distance_milp m s"
proof -
  have "0 \<le> distance m (i, j) * s (z (i, j))"
    if "i \<in> {1..n_days m}" and "j \<in> {1..n_days m}" for i j
  proof -
    from f that have "Binary (s (z (i, j)))" by (rule feasible_milp_Binary_z)
    then have "0 \<le> s (z (i, j))" by (simp add: Binary_bounds)
    moreover from d that have "0 \<le> distance m (i, j)" by blast
    ultimately show ?thesis by (rule mult_nonneg_nonneg [rotated])
  qed
  then show ?thesis
    unfolding objective_milp_sum by (auto intro!: sum_nonneg)
qed

lemma objective_milp_zero:
  assumes f: "feasible_milp m s"
    and d: "\<forall>i\<in>{1..n_days m}. \<forall>j\<in>{1..n_days m}. 0 \<le> distance m (i, j)"
    and z0: "total_distance_milp m s = 0"
    and i: "i \<in> {1..n_days m}" and j: "j \<in> {1..n_days m}" and pos: "0 < distance m (i, j)"
  shows "s (z (i, j)) = 0"
proof -
  have nn: "0 \<le> distance m (i, j) * s (z (i, j))"
    if "i \<in> {1..n_days m}" and "j \<in> {1..n_days m}" for i j
  proof -
    from f that have "Binary (s (z (i, j)))" by (rule feasible_milp_Binary_z)
    then have "0 \<le> s (z (i, j))" by (simp add: Binary_bounds)
    moreover from d that have "0 \<le> distance m (i, j)" by blast
    ultimately show ?thesis by (rule mult_nonneg_nonneg [rotated])
  qed
  have rows: "0 \<le> (\<Sum>j = 1..n_days m. distance m (i, j) * s (z (i, j)))"
    if "i \<in> {1..n_days m}" for i
    using nn [OF that] by (auto intro!: sum_nonneg)
  from z0 have "(\<Sum>i = 1..n_days m. \<Sum>j = 1..n_days m. distance m (i, j) * s (z (i, j))) = 0"
    by (simp only: objective_milp_sum)
  then have "\<forall>i\<in>{1..n_days m}. (\<Sum>j = 1..n_days m. distance m (i, j) * s (z (i, j))) = 0"
    using rows by (subst (asm) sum_nonneg_eq_0_iff) auto
  with i have "(\<Sum>j = 1..n_days m. distance m (i, j) * s (z (i, j))) = 0" by blast
  then have "\<forall>j\<in>{1..n_days m}. distance m (i, j) * s (z (i, j)) = 0"
    using nn [OF i] by (subst (asm) sum_nonneg_eq_0_iff) auto
  with j have "distance m (i, j) * s (z (i, j)) = 0" by blast
  with pos show ?thesis by simp
qed

text \<open>
  Claim C9, as the code has it. In the plain model with 3 days, 3 clusters and no
  extreme day, every feasible solution has \<open>y[i] = 1\<close> for every day and assigns every
  day to exactly one representative. The solution in which every day represents itself
  is feasible, and its objective is the sum of the distances of the days to themselves.
  If the distances are non-negative and 0 from a day to itself, that objective is 0 and
  no feasible solution has a smaller one; if moreover the distance between two different
  days is positive, a feasible solution with objective 0 has \<open>z[i,i] = 1\<close> and
  \<open>z[i,j] = 0\<close> for \<open>i \<noteq> j\<close>.
\<close>

theorem three_days_three_clusters:
  assumes "feasible_milp (three_days dm) s"
  shows "create_model_milp (three_days_data dm) = Inr (three_days dm) \<and>
     (\<forall>i\<in>{1..3}. s (y i) = 1) \<and>
     (\<forall>j\<in>{1..3}. (\<Sum>i = 1..3. s (z (i, j))) = 1) \<and>
     feasible_milp (three_days dm) own_cluster_unwitnessed \<and>
     total_distance_milp (three_days dm) own_cluster_unwitnessed
       = dm (1, 1) + dm (2, 2) + dm (3, 3) \<and>
     ((\<forall>i\<in>{1..3}. dm (i, i) = 0) \<and> (\<forall>i\<in>{1..3}. \<forall>j\<in>{1..3}. 0 \<le> dm (i, j)) \<longrightarrow>
        total_distance_milp (three_days dm) own_cluster_unwitnessed = 0 \<and>
        0 \<le> total_distance_milp (three_days dm) s) \<and>
     ((\<forall>i\<in>{1..3}. dm (i, i) = 0) \<and> (\<forall>i\<in>{1..3}. \<forall>j\<in>{1..3}. i \<noteq> j \<longrightarrow> 0 < dm (i, j)) \<and>
      total_distance_milp (three_days dm) s = 0 \<longrightarrow>
        (\<forall>i\<in>{1..3}. \<forall>j\<in>{1..3}. s (z (i, j)) = (if i = j then 1 else 0)))"
proof (intro conjI impI)
  note f = assms
  show "create_model_milp (three_days_data dm) = Inr (three_days dm)"
    by (rule three_days_constructed)
  show "\<forall>i\<in>{1..3}. s (y i) = 1"
    by (simp add: atLeastAtMost_1_3 three_days_y [OF f])
  show cols: "\<forall>j\<in>{1..3}. (\<Sum>i = 1..3. s (z (i, j))) = 1"
    using three_days_columns [OF f] by (simp add: atLeastAtMost_1_3 add.assoc)
  show "feasible_milp (three_days dm) own_cluster_unwitnessed"
    by (simp add: three_days_defs own_cluster_unwitnessed_def Binary_def)
  show own: "total_distance_milp (three_days dm) own_cluster_unwitnessed
       = dm (1, 1) + dm (2, 2) + dm (3, 3)"
    by (simp add: three_days_objective own_cluster_unwitnessed_def)
  {
    assume a: "(\<forall>i\<in>{1..3}. dm (i, i) = 0) \<and> (\<forall>i\<in>{1..3}. \<forall>j\<in>{1..3}. 0 \<le> dm (i, j))"
    then show "total_distance_milp (three_days dm) own_cluster_unwitnessed = 0"
      by (simp add: own)
    from a show "0 \<le> total_distance_milp (three_days dm) s"
      by (intro objective_milp_nonneg [OF f]) simp
  }
  {
    assume a: "(\<forall>i\<in>{1..3}. dm (i, i) = 0) \<and>
      (\<forall>i\<in>{1..3}. \<forall>j\<in>{1..3}. i \<noteq> j \<longrightarrow> 0 < dm (i, j)) \<and>
      total_distance_milp (three_days dm) s = 0"
    then have nn: "\<forall>i\<in>{1..n_days (three_days dm)}. \<forall>j\<in>{1..n_days (three_days dm)}.
        0 \<le> distance (three_days dm) (i, j)"
      by (simp only: three_days_fields) (metis less_eq_real_def)
    have off: "s (z (i, j)) = 0" if "i \<in> {1..3}" "j \<in> {1..3}" "i \<noteq> j" for i j
    proof (rule objective_milp_zero [OF f nn])
      from a show "total_distance_milp (three_days dm) s = 0" by blast
      from that show "i \<in> {1..n_days (three_days dm)}" "j \<in> {1..n_days (three_days dm)}"
        by simp_all
      from a that show "0 < distance (three_days dm) (i, j)" by simp
    qed
    show "\<forall>i\<in>{1..3}. \<forall>j\<in>{1..3}. s (z (i, j)) = (if i = j then 1 else 0)"
    proof (intro ballI)
      fix i j :: int assume i: "i \<in> {1..3}" and j: "j \<in> {1..3}"
      show "s (z (i, j)) = (if i = j then 1 else 0)"
      proof (cases "i = j")
        case False
        with off [OF i j] show ?thesis by simp
      next
        case True
        from cols j have "(\<Sum>k = 1..3. s (z (k, j))) = 1" by blast
        also have "(\<Sum>k = 1..3. s (z (k, j))) = (\<Sum>k \<in> {1..3}. if k = j then s (z (j, j)) else 0)"
          using off j by (intro sum.cong) auto
        also have "\<dots> = s (z (j, j))"
          using j by simp
        finally show ?thesis using True by simp
      qed
    qed
  }
qed

theorem three_days_three_clusters_witness:
  "feasible_milp (three_days discrete_distance) own_cluster_unwitnessed \<and>
   total_distance_milp (three_days discrete_distance) own_cluster_unwitnessed = 0 \<and>
   (\<Sum>i = 1..3. own_cluster_unwitnessed (z (i, 2))) = 1 \<and>
   own_cluster_unwitnessed (z (2, 2)) = 1 \<and>
   own_cluster_unwitnessed (z (1, 2)) = 0"
proof -
  have f: "feasible_milp (three_days discrete_distance) own_cluster_unwitnessed"
    by (simp add: three_days_defs own_cluster_unwitnessed_def Binary_def)
  have d: "(\<forall>i\<in>{1..3}. discrete_distance (i, i) = 0) \<and>
      (\<forall>i\<in>{1..3}. \<forall>j\<in>{1..3}. 0 \<le> discrete_distance (i, j))"
    by (simp add: discrete_distance_def)
  have p: "\<forall>i\<in>{1..3}. \<forall>j\<in>{1..3}. i \<noteq> j \<longrightarrow> 0 < discrete_distance (i, j)"
    by (simp add: discrete_distance_def)
  note t = three_days_three_clusters [OF f]
  from t d have o: "total_distance_milp (three_days discrete_distance) own_cluster_unwitnessed = 0"
    by blast
  from t have "\<forall>j\<in>{1..3}. (\<Sum>i = 1..3. own_cluster_unwitnessed (z (i, j))) = 1"
    by blast
  then have c: "(\<Sum>i = 1..3. own_cluster_unwitnessed (z (i, 2))) = 1"
    by simp
  from t d p o have u: "\<forall>i\<in>{1..3}. \<forall>j\<in>{1..3}.
      own_cluster_unwitnessed (z (i, j)) = (if i = j then 1 else 0)"
    by blast
  from u have "own_cluster_unwitnessed (z (2, 2)) = 1" and "own_cluster_unwitnessed (z (1, 2)) = 0"
    by simp_all
  with f o c show ?thesis by (simp only: simp_thms)
qed

text \<open>
  The claim as stated (every solution has every day as its own representative and
  objective 0, whatever the distances) fails: with distance 0 from a day to itself and 1
  otherwise, the valuation with every day a representative and every day assigned to
  day 1 is feasible, has \<open>z[2,2] = 0\<close> and \<open>z[1,2] = 1\<close>, and has objective 2.
\<close>

theorem three_clusters_not_own_representative:
  "create_model_milp (three_days_data discrete_distance) = Inr (three_days discrete_distance) \<and>
   feasible_milp (three_days discrete_distance) all_assigned_to_first \<and>
   all_assigned_to_first (z (2, 2)) = 0 \<and>
   all_assigned_to_first (z (1, 2)) = 1 \<and>
   total_distance_milp (three_days discrete_distance) all_assigned_to_first = 2"
proof -
  have "create_model_milp (three_days_data discrete_distance) = Inr (three_days discrete_distance)"
    by (rule three_days_constructed)
  moreover have "feasible_milp (three_days discrete_distance) all_assigned_to_first"
    by (simp add: three_days_defs all_assigned_to_first_def Binary_def)
  moreover have "all_assigned_to_first (z (2, 2)) = 0" and "all_assigned_to_first (z (1, 2)) = 1"
    by (simp_all add: all_assigned_to_first_def)
  moreover have "total_distance_milp (three_days discrete_distance) all_assigned_to_first = 2"
    by (simp add: three_days_objective all_assigned_to_first_def discrete_distance_def)
  ultimately show ?thesis by (simp only: simp_thms)
qed

section \<open>Validation of the input\<close>

lemma sum_Binary_le:
  assumes "\<forall>i\<in>{1..n}. Binary (f i)" and "0 \<le> n"
  shows "(\<Sum>i = 1..n. f i) \<le> of_int n"
proof -
  have "(\<Sum>i = 1..n. f i) \<le> (\<Sum>i = 1..n. 1)"
    using assms(1) by (intro sum_mono) (simp add: Binary_bounds)
  also have "\<dots> = of_int n"
    using assms(2) by simp
  finally show ?thesis .
qed

lemma create_model_fails_iff:
  "isl (create_model ptv ppv d) \<longleftrightarrow>
     n_days d < 1 \<or> n_clusters d < 1 \<or> n_extreme_days d < 0 \<or>
     (\<exists>p\<in>set (Properties_data d). \<exists>i\<in>{1..n_days d}. x_daily_tot_data d (p, i) = None) \<or>
     (\<exists>p\<in>set (Properties_data d). rel_tol_data d p = None) \<or>
     (\<exists>p\<in>set (Properties_data d). min_peak_share_data d p = None) \<or>
     (\<exists>i\<in>{1..n_days d}. \<exists>j\<in>{1..n_days d}. distance_data d (i, j) = None)"
proof -
  have t: "missing (x_daily_tot_data d) (List.product (Properties_data d) (Days d)) \<longleftrightarrow>
      (\<exists>p\<in>set (Properties_data d). \<exists>i\<in>{1..n_days d}. x_daily_tot_data d (p, i) = None)"
    by (auto simp add: missing_iff set_Days)
  have r: "missing (rel_tol_data d) (Properties_data d) \<longleftrightarrow>
      (\<exists>p\<in>set (Properties_data d). rel_tol_data d p = None)"
    by (simp add: missing_iff)
  have s: "missing (min_peak_share_data d) (Properties_data d) \<longleftrightarrow>
      (\<exists>p\<in>set (Properties_data d). min_peak_share_data d p = None)"
    by (simp add: missing_iff)
  have x: "missing (distance_data d) (Days_cross d) \<longleftrightarrow>
      (\<exists>i\<in>{1..n_days d}. \<exists>j\<in>{1..n_days d}. distance_data d (i, j) = None)"
    by (auto simp add: missing_iff set_Days_cross)
  show ?thesis
    unfolding create_model_def PositiveIntegers_def NonNegativeIntegers_def t r s x
    by auto
qed

lemma create_model_milp_fails_iff:
  "isl (create_model_milp d) \<longleftrightarrow>
     n_days d < 1 \<or> n_clusters d < 1 \<or> n_extreme_days d < 0 \<or>
     (\<exists>i\<in>{1..n_days d}. \<exists>j\<in>{1..n_days d}. distance_data d (i, j) = None)"
proof -
  have x: "missing (distance_data d) (Days_cross_milp d) \<longleftrightarrow>
      (\<exists>i\<in>{1..n_days d}. \<exists>j\<in>{1..n_days d}. distance_data d (i, j) = None)"
    by (auto simp add: missing_iff set_Days_cross_milp)
  show ?thesis
    unfolding create_model_milp_def PositiveIntegers_def NonNegativeIntegers_def x
    by auto
qed

text \<open>
  Claim C8, as the code has it. The construction of an instance of the constrained model
  fails exactly when \<^verbatim>\<open>n_days\<close> or \<^verbatim>\<open>n_clusters\<close> is not positive,
  \<^verbatim>\<open>n_extreme_days\<close> is negative, or the data lack a daily total, a relative tolerance
  or a minimum peak share of a property, or the distance of a pair of days; the options
  play no part in it. The plain model fails exactly on the counts and on a lacking
  distance. A lacking daily maximum or overall maximum is not detected: the instance is
  built and holds the parameter without value. That \<^verbatim>\<open>n_clusters\<close> exceeds
  \<^verbatim>\<open>n_days\<close> is not detected either: an instance is built, and it has no feasible
  solution.
\<close>

theorem malformed_input_at_construction:
  "(isl (create_model ptv ppv d) \<longleftrightarrow>
      n_days d < 1 \<or> n_clusters d < 1 \<or> n_extreme_days d < 0 \<or>
      (\<exists>p\<in>set (Properties_data d). \<exists>i\<in>{1..n_days d}. x_daily_tot_data d (p, i) = None) \<or>
      (\<exists>p\<in>set (Properties_data d). rel_tol_data d p = None) \<or>
      (\<exists>p\<in>set (Properties_data d). min_peak_share_data d p = None) \<or>
      (\<exists>i\<in>{1..n_days d}. \<exists>j\<in>{1..n_days d}. distance_data d (i, j) = None)) \<and>
   (isl (create_model_milp d') \<longleftrightarrow>
      n_days d' < 1 \<or> n_clusters d' < 1 \<or> n_extreme_days d' < 0 \<or>
      (\<exists>i\<in>{1..n_days d'}. \<exists>j\<in>{1..n_days d'}. distance_data d' (i, j) = None)) \<and>
   (create_model ptv ppv d = Inr m \<longrightarrow>
      x_daily_max m = x_daily_max_data d \<and> x_max m = x_max_data d) \<and>
   (create_model ptv ppv d = Inr m \<and> n_days d < n_clusters d \<longrightarrow> \<not> feasible m s) \<and>
   (create_model_milp d' = Inr m' \<and> n_days d' < n_clusters d' \<longrightarrow> \<not> feasible_milp m' s')"
proof (intro conjI impI)
  show "isl (create_model ptv ppv d) \<longleftrightarrow>
      n_days d < 1 \<or> n_clusters d < 1 \<or> n_extreme_days d < 0 \<or>
      (\<exists>p\<in>set (Properties_data d). \<exists>i\<in>{1..n_days d}. x_daily_tot_data d (p, i) = None) \<or>
      (\<exists>p\<in>set (Properties_data d). rel_tol_data d p = None) \<or>
      (\<exists>p\<in>set (Properties_data d). min_peak_share_data d p = None) \<or>
      (\<exists>i\<in>{1..n_days d}. \<exists>j\<in>{1..n_days d}. distance_data d (i, j) = None)"
    by (rule create_model_fails_iff)
  show "isl (create_model_milp d') \<longleftrightarrow>
      n_days d' < 1 \<or> n_clusters d' < 1 \<or> n_extreme_days d' < 0 \<or>
      (\<exists>i\<in>{1..n_days d'}. \<exists>j\<in>{1..n_days d'}. distance_data d' (i, j) = None)"
    by (rule create_model_milp_fails_iff)
next
  assume c: "create_model ptv ppv d = Inr m"
  show "x_daily_max m = x_daily_max_data d" and "x_max m = x_max_data d"
    by (simp_all add: created_data [OF c])
next
  assume a: "create_model ptv ppv d = Inr m \<and> n_days d < n_clusters d"
  then have c: "create_model ptv ppv d = Inr m" by blast
  from a have lt: "n_days m < n_clusters m"
    by (simp add: created_data [OF c])
  show "\<not> feasible m s"
  proof
    assume f: "feasible m s"
    have "(\<Sum>i = 1..n_days m. s (y i)) \<le> of_int (n_days m)"
      using feasible_Binary_y [OF f] create_model_Inr(2) [OF c] created_data(1) [OF c]
      by (intro sum_Binary_le) auto
    with created_base(1) [OF c f] lt show False by simp
  qed
next
  assume a: "create_model_milp d' = Inr m' \<and> n_days d' < n_clusters d'"
  then have m': "m' = declare_components_milp d'" and n: "1 \<le> n_days d'"
    by (simp_all add: create_model_milp_def PositiveIntegers_def split: if_splits)
  from m' have k: "n_days m' = n_days d'" "n_clusters m' = n_clusters d'"
    by (simp_all add: declare_components_milp_def)
  show "\<not> feasible_milp m' s'"
  proof
    assume f: "feasible_milp m' s'"
    then have b: "\<forall>i\<in>{1..n_days m'}. Binary (s' (y i))"
      and e: "(\<Sum>i = 1..n_days m'. s' (y i)) = of_int (n_clusters m')"
      unfolding feasible_milp_iff by blast+
    from b n k have "(\<Sum>i = 1..n_days m'. s' (y i)) \<le> of_int (n_days m')"
      by (intro sum_Binary_le) auto
    with e a k show False by simp
  qed
qed

theorem malformed_input_at_construction_witness:
  "isl (create_model True True (two_days 0 0)) \<and>
   isl (create_model False False without_tolerance) \<and>
   isl (create_model_milp (milp_input.truncate (two_days 0 0))) \<and>
   create_model True True (two_days 3 0)
     = Inr (apply_options (declare_components True True (two_days 3 0))) \<and>
   \<not> feasible (apply_options (declare_components True True (two_days 3 0))) own_cluster \<and>
   create_model_milp (milp_input.truncate (two_days 3 0))
     = Inr (declare_components_milp (milp_input.truncate (two_days 3 0))) \<and>
   \<not> feasible_milp (declare_components_milp (milp_input.truncate (two_days 3 0))) own_cluster"
proof -
  let ?M = "apply_options (declare_components True True (two_days 3 0))"
  let ?I = "milp_input.truncate (two_days 3 0)"
  let ?D = "declare_components_milp ?I"
  have bad: "n_clusters (two_days 0 0) < 1" "n_clusters (milp_input.truncate (two_days 0 0)) < 1"
    by (simp_all add: two_days_def)
  have tol: "\<exists>p\<in>set (Properties_data without_tolerance). rel_tol_data without_tolerance p = None"
    by (simp add: without_tolerance_def two_days_def)
  have c: "create_model True True (two_days 3 0) = Inr ?M"
    by (simp add: model_defs)
  have c': "create_model_milp ?I = Inr ?D"
    by (simp add: milp_defs Days_milp_def Days_cross_milp_def upto_1_2)
  have lt: "n_days (two_days 3 0) < n_clusters (two_days 3 0)" "n_days ?I < n_clusters ?I"
    by (simp_all add: two_days_def)
  from malformed_input_at_construction
    [of True True "two_days 0 0" "milp_input.truncate (two_days 0 0)"] bad
  have e: "isl (create_model True True (two_days 0 0))"
    "isl (create_model_milp (milp_input.truncate (two_days 0 0)))"
    by blast+
  from malformed_input_at_construction [of False False without_tolerance] tol
  have t: "isl (create_model False False without_tolerance)"
    by blast
  from malformed_input_at_construction [of True True "two_days 3 0" ?I ?M own_cluster ?D own_cluster]
    c c' lt
  have "\<not> feasible ?M own_cluster" and "\<not> feasible_milp ?D own_cluster"
    by blast+
  with e t c c' show ?thesis by (simp only: simp_thms)
qed

text \<open>
  The claim as stated fails twice. Construction does not fail for every input with more
  clusters than days: with 2 days and 3 clusters both models are constructed. And a
  missing parameter of an enabled preservation is not always detected: with peak
  preservation enabled and no overall maximum in the data the instance is constructed.
\<close>

theorem malformed_input_is_accepted:
  "n_days (two_days 3 0) < n_clusters (two_days 3 0) \<and>
   \<not> isl (create_model True True (two_days 3 0)) \<and>
   \<not> isl (create_model False False (two_days 3 0)) \<and>
   \<not> isl (create_model_milp (milp_input.truncate (two_days 3 0))) \<and>
   x_max_data without_overall_maximum ''load'' = None \<and>
   \<not> isl (create_model True True without_overall_maximum)"
proof -
  have "n_days (two_days 3 0) < n_clusters (two_days 3 0)"
    by (simp add: two_days_def)
  moreover have "\<not> isl (create_model True True (two_days 3 0))"
    and "\<not> isl (create_model False False (two_days 3 0))"
    by (simp_all add: model_defs)
  moreover have "\<not> isl (create_model_milp (milp_input.truncate (two_days 3 0)))"
    by (simp add: create_model_milp_fails_iff two_days_def n_extreme_days_def)
  moreover have "x_max_data without_overall_maximum ''load'' = None"
    by (simp add: without_overall_maximum_def)
  moreover have "\<not> isl (create_model True True without_overall_maximum)"
    by (simp add: create_model_fails_iff without_overall_maximum_def two_days_def
        n_extreme_days_def)
  ultimately show ?thesis by (simp only: simp_thms)
qed

end
